theory Spec2Isabelle
  imports Complex_Main "HOL-Library.AList"
begin

section \<open>Data model of \<open>ai_security_monitor.py\<close>\<close>

text \<open>
  The monitor is the Python class \<open>AISecurityMonitor\<close>. Its methods are embedded as
  functions that take the monitor (the object's fields) and return the updated monitor,
  the returned value or the exception that leaves the method, and the records written to
  the external sinks (log file, mail transport).

  Conventions.
  \<^item> An instant (\<open>datetime\<close>) is an \<open>int\<close>: microseconds on the naive local time line, the
    resolution of \<open>datetime\<close>. \<open>isoformat\<close> followed by \<open>fromisoformat\<close> is the identity on
    naive instants, so a stored timestamp is the instant itself. The bounds of
    \<open>datetime\<close> (years 1 to 9999) are not modelled.
  \<^item> Every reading of \<open>datetime.now()\<close> is an input of the call that makes it; nothing
    is assumed about two readings (the wall clock may step backwards).
  \<^item> A dictionary with a fixed set of documented keys is a record whose fields are
    options: \<open>None\<close> is the absent key, and reading it raises \<open>KeyError\<close>.
  \<^item> Exceptions are values of \<open>py_error\<close>; all of them are subclasses of Python's
    \<open>Exception\<close>, which is what the two \<open>except Exception\<close> handlers catch.
\<close>

datatype py_error =
    KeyError string
  | ValueError
  | TypeError
  | ZeroDivisionError
  | OSError string
  | SMTPException string

datatype severity = Low | Medium | High

text \<open>The order \<open>low < medium < high\<close> that the spec uses for "raise".\<close>

fun severity_rank :: "severity \<Rightarrow> nat" where
  "severity_rank Low = 0"
| "severity_rank Medium = 1"
| "severity_rank High = 2"

fun severity_upper :: "severity \<Rightarrow> string" where
  "severity_upper Low = ''LOW''"
| "severity_upper Medium = ''MEDIUM''"
| "severity_upper High = ''HIGH''"

text \<open>\<open>alert_settings["alert_thresholds"]\<close>, the three documented keys.\<close>

record thresholds_cfg =
  max_requests_per_minute :: "int option"
  suspicious_pattern_threshold :: "rat option"
  failed_attempts_threshold :: "int option"

text \<open>\<open>alert_settings["smtp_settings"]\<close>.\<close>

record smtp_cfg =
  sender :: "string option"
  server :: "string option"
  port :: "int option"
  use_tls :: "bool option"
  username :: "string option"
  password :: "string option"

record alert_cfg =
  email_recipients :: "string list option"
  smtp_settings :: "smtp_cfg option"
  alert_thresholds :: "thresholds_cfg option"

text \<open>
  The value of \<open>_analyze_input_patterns\<close>: the dictionary with the keys
  \<open>suspicious_patterns\<close> and \<open>details\<close> (the latter is never written, it stays \<open>{}\<close>).
\<close>

record pattern_result =
  suspicious_patterns :: "string list"
  analysis_details :: "(string \<times> string) list"

text \<open>
  The assessment dictionary of \<open>detect_threat\<close>. \<open>details\<close> is a dictionary in insertion
  order; the only key ever stored is \<open>patterns\<close>.
\<close>

record threat_assessment =
  timestamp :: int
  severity :: severity
  threats_detected :: "string list"
  details :: "(string \<times> pattern_result) list"

text \<open>The incident dictionary built by \<open>_log_incident\<close>.\<close>

record incident =
  i_timestamp :: int
  i_severity :: severity
  threats :: "string list"
  i_ip_address :: string
  i_details :: "(string \<times> pattern_result) list"

text \<open>The fields of the object. \<open>request_history\<close> is a \<open>defaultdict(list)\<close>.\<close>

record monitor =
  model_name :: string
  alert_settings :: alert_cfg
  incident_log :: "incident list"
  request_history :: "string \<rightharpoonup> int list"

text \<open>
  The message handed to the transport. The body is the fixed template of \<open>_send_alert\<close>
  filled from the incident; it is kept as the incident it renders.
\<close>

record email =
  msg_subject :: string
  msg_from :: string
  msg_to :: string
  msg_body :: incident

text \<open>
  What reaches the sinks: \<open>logging.warning\<close> of an incident, \<open>logging.error\<close> with its
  message prefix and the exception, and a message accepted by the SMTP server.
\<close>

datatype event =
    LogWarning incident
  | LogError string py_error
  | EmailSent email

section \<open>Construction\<close>

text \<open>
  \<open>__init__\<close> stores its arguments, starts with an empty incident log and an empty
  request history, and calls \<open>logging.basicConfig\<close> on the file
  \<open>logging_path or f"security_{model_name}_{now:%Y%m%d}.log"\<close>. Opening that file is the
  only step that can raise; its outcome \<open>basicConfig\<close> and the rendered date \<open>today\<close>
  are inputs.
\<close>

definition init ::
  "(string \<Rightarrow> py_error option) \<Rightarrow> string \<Rightarrow> string \<Rightarrow> alert_cfg \<Rightarrow> string option
     \<Rightarrow> py_error + monitor" where
  "init basicConfig today name settings logging_path =
     (let default = ''security_'' @ name @ ''_'' @ today @ ''.log'';
          filename = (case logging_path of
                        None \<Rightarrow> default
                      | Some p \<Rightarrow> if p \<noteq> [] then p else default)
      in case basicConfig filename of
           Some e \<Rightarrow> Inl e
         | None \<Rightarrow> Inr \<lparr>model_name = name, alert_settings = settings,
                        incident_log = [], request_history = Map.empty\<rparr>)"

section \<open>Rate limiting\<close>

definition minute :: int where
  "minute = 60 * 1000000"

text \<open>Reading a \<open>defaultdict(list)\<close>: an absent key reads as the empty list.\<close>

definition history_of :: "monitor \<Rightarrow> string \<Rightarrow> int list" where
  "history_of m ip = (case request_history m ip of None \<Rightarrow> [] | Some ts \<Rightarrow> ts)"

text \<open>
  \<open>_check_rate_limit\<close>. The history is written back before the threshold is read, so the
  update survives a \<open>KeyError\<close> raised by the \<open>return\<close> expression.
\<close>

definition check_rate_limit :: "int \<Rightarrow> monitor \<Rightarrow> string \<Rightarrow> (py_error + bool) \<times> monitor" where
  "check_rate_limit current_time m ip =
     (let recent_requests = filter (\<lambda>ts. current_time - ts < minute) (history_of m ip);
          m' = m\<lparr>request_history := (request_history m)(ip \<mapsto> recent_requests @ [current_time])\<rparr>
      in case alert_thresholds (alert_settings m) of
           None \<Rightarrow> (Inl (KeyError ''alert_thresholds''), m')
         | Some th \<Rightarrow>
             (case max_requests_per_minute th of
                None \<Rightarrow> (Inl (KeyError ''max_requests_per_minute''), m')
              | Some T \<Rightarrow> (Inr (int (length recent_requests) > T), m')))"

text \<open>
  A sequence of rate checks, each with its source and its clock reading, in arrival
  order; the list of their outcomes.
\<close>

fun check_all :: "monitor \<Rightarrow> (string \<times> int) list \<Rightarrow> (py_error + bool) list" where
  "check_all m [] = []"
| "check_all m (c # cs) =
     (case check_rate_limit (snd c) m (fst c) of (r, m') \<Rightarrow> r # check_all m' cs)"

section \<open>Input coercion and the array operations of the pattern analysis\<close>

text \<open>
  The request's \<open>input_data\<close> is a Python value: a number, a string, \<open>None\<close>, or a list
  of such values nested to any depth. Numbers are Python ints. On ints of magnitude
  below \<open>2^53\<close> every float64 operation the analysis performs (true division of two
  counts, \<open>astype(float)\<close>, the differences and the halving of \<open>np.gradient\<close>, the
  comparisons with \<open>1e6\<close>, \<open>0.01\<close> and \<open>100\<close>) returns the correctly rounded value of the
  exact one and compares as the exact one does, so the values are exact rationals here.
\<close>

datatype scalar = PyInt int | PyStr string | PyNone

datatype pyval = Scalar scalar | PyList "pyval list"

text \<open>An array: its shape and its elements in row-major order.\<close>

record ndarray =
  shape :: "nat list"
  items :: "scalar list"

text \<open>
  Shape discovery of \<open>np.asarray\<close>: a scalar has shape \<open>()\<close>, a list of \<open>n\<close> values of one
  common shape \<open>s\<close> has shape \<open>(n,) + s\<close>, and \<open>[]\<close> has shape \<open>(0,)\<close>. A list whose
  elements differ in shape is refused with \<open>ValueError\<close> (NumPy 1.24 and later).
\<close>

fun discover_shape :: "pyval \<Rightarrow> nat list option" where
  "discover_shape (Scalar s) = Some []"
| "discover_shape (PyList []) = Some [0]"
| "discover_shape (PyList (x # xs)) =
     (case discover_shape x of
        None \<Rightarrow> None
      | Some s \<Rightarrow> if list_all (\<lambda>y. discover_shape y = Some s) xs
                  then Some (Suc (length xs) # s) else None)"

fun flatten :: "pyval \<Rightarrow> scalar list" where
  "flatten (Scalar s) = [s]"
| "flatten (PyList xs) = concat (map flatten xs)"

definition np_asarray :: "pyval \<Rightarrow> py_error + ndarray" where
  "np_asarray v =
     (case discover_shape v of
        None \<Rightarrow> Inl ValueError
      | Some shp \<Rightarrow> Inr \<lparr>shape = shp, items = flatten v\<rparr>)"

text \<open>
  The elements as numbers, when all of them are numbers. An array holding a string or
  \<open>None\<close> has a string or object dtype, on which \<open>np.abs\<close> raises \<open>TypeError\<close> and
  \<open>astype(float)\<close> raises \<open>ValueError\<close>. An array without elements is numeric.
\<close>

fun as_ints :: "scalar list \<Rightarrow> int list option" where
  "as_ints [] = Some []"
| "as_ints (PyInt n # xs) = map_option ((#) n) (as_ints xs)"
| "as_ints (_ # xs) = None"

definition np_abs :: "ndarray \<Rightarrow> py_error + int list" where
  "np_abs a = (case as_ints (items a) of None \<Rightarrow> Inl TypeError | Some xs \<Rightarrow> Inr (map abs xs))"

definition astype_float :: "ndarray \<Rightarrow> py_error + rat list" where
  "astype_float a =
     (case as_ints (items a) of None \<Rightarrow> Inl ValueError | Some xs \<Rightarrow> Inr (map of_int xs))"

text \<open>\<open>ndarray.size\<close>: the product of the shape.\<close>

definition arr_size :: "ndarray \<Rightarrow> nat" where
  "arr_size a = prod_list (shape a)"

definition count_nonzero :: "ndarray \<Rightarrow> nat" where
  "count_nonzero a = length (filter (\<lambda>x. x \<noteq> PyInt 0) (items a))"

text \<open>Python's \<open>/\<close> on two ints.\<close>

definition true_divide :: "nat \<Rightarrow> nat \<Rightarrow> py_error + rat" where
  "true_divide a b = (if b = 0 then Inl ZeroDivisionError else Inr (of_nat a / of_nat b))"

text \<open>
  \<open>np.gradient\<close> with unit spacing and \<open>edge_order = 1\<close>, one output per axis. Along an
  axis of length \<open>n\<close> and stride \<open>st\<close>, the element at position \<open>k\<close> of the axis gets the
  one-sided difference at the two ends and half the central difference inside. An axis
  shorter than two elements raises \<open>ValueError\<close> when the loop over the axes reaches it.
\<close>

definition axis_gradient :: "nat list \<Rightarrow> rat list \<Rightarrow> nat \<Rightarrow> rat list" where
  "axis_gradient shp f ax =
     (let n = shp ! ax;
          st = prod_list (drop (Suc ax) shp)
      in map (\<lambda>i. let k = (i div st) mod n
                   in if k = 0 then f ! (i + st) - f ! i
                      else if k = n - 1 then f ! i - f ! (i - st)
                      else (f ! (i + st) - f ! (i - st)) / 2)
             [0..<length f])"

fun gradient_axes :: "nat list \<Rightarrow> rat list \<Rightarrow> nat list \<Rightarrow> py_error + rat list list" where
  "gradient_axes shp f [] = Inr []"
| "gradient_axes shp f (ax # axes) =
     (if shp ! ax < 2 then Inl ValueError
      else case gradient_axes shp f axes of
             Inl e \<Rightarrow> Inl e
           | Inr outs \<Rightarrow> Inr (axis_gradient shp f ax # outs))"

definition np_gradient :: "nat list \<Rightarrow> rat list \<Rightarrow> py_error + rat list list" where
  "np_gradient shp f = gradient_axes shp f [0..<length shp]"

section \<open>Pattern analysis\<close>

text \<open>
  The body of the \<open>try\<close> block of \<open>_analyze_input_patterns\<close>: the labels appended so far
  and, when a statement raises, the exception that ends the block.
\<close>

definition analyze_body :: "pyval \<Rightarrow> string list \<times> py_error option" where
  "analyze_body input_data =
     (case np_asarray input_data of
        Inl e \<Rightarrow> ([], Some e)
      | Inr input_array \<Rightarrow>
     (case np_abs input_array of
        Inl e \<Rightarrow> ([], Some e)
      | Inr magnitudes \<Rightarrow>
     (let r1 = (if list_ex (\<lambda>v. v > 1000000) magnitudes then [''extreme_values''] else [])
      in case true_divide (count_nonzero input_array) (arr_size input_array) of
        Inl e \<Rightarrow> (r1, Some e)
      | Inr sparsity \<Rightarrow>
     (let r2 = r1 @ (if sparsity < 1 / 100 then [''suspicious_sparsity''] else [])
      in if length (shape input_array) > 1 then
           (case astype_float input_array of
              Inl e \<Rightarrow> (r2, Some e)
            | Inr f \<Rightarrow>
           (case np_gradient (shape input_array) f of
              Inl e \<Rightarrow> (r2, Some e)
            | Inr gradient \<Rightarrow>
                (r2 @ (if list_all (\<lambda>g. \<bar>g\<bar> > 100) (concat gradient)
                       then [''potential_adversarial_pattern''] else []), None)))
         else (r2, None)))))"

text \<open>
  \<open>_analyze_input_patterns\<close>: the \<open>except Exception\<close> handler logs the exception and
  appends \<open>analysis_error\<close> to the list the block has filled so far.
\<close>

definition analyze_input_patterns :: "pyval \<Rightarrow> pattern_result \<times> event list" where
  "analyze_input_patterns input_data =
     (case analyze_body input_data of
        (labels, None) \<Rightarrow>
          (\<lparr>suspicious_patterns = labels, analysis_details = []\<rparr>, [])
      | (labels, Some e) \<Rightarrow>
          (\<lparr>suspicious_patterns = labels @ [''analysis_error''], analysis_details = []\<rparr>,
           [LogError ''Pattern analysis error'' e]))"

section \<open>Incident recording and alerting\<close>

text \<open>
  The mail server as seen by \<open>_send_alert\<close>: the outcome of opening the connection, of
  \<open>starttls\<close>, of \<open>login\<close>, and of \<open>send_message\<close> together with the end of the \<open>with\<close>
  block; \<open>None\<close> is success, \<open>Some e\<close> the exception.
\<close>

record transport =
  smtp_connect :: "string \<Rightarrow> int \<Rightarrow> py_error option"
  smtp_starttls :: "py_error option"
  smtp_login :: "string \<Rightarrow> string \<Rightarrow> py_error option"
  smtp_send_message :: "email \<Rightarrow> py_error option"

text \<open>Python's \<open>sep.join(xs)\<close>.\<close>

fun join :: "string \<Rightarrow> string list \<Rightarrow> string" where
  "join sep [] = []"
| "join sep [x] = x"
| "join sep (x # y # ys) = x @ sep @ join sep (y # ys)"

text \<open>
  The body of the \<open>try\<close> block of \<open>_send_alert\<close>, in the order of the source: the message
  is built, the connection opened, TLS started when \<open>use_tls\<close> is set and true, the login
  made when \<open>username\<close> is present, and the message sent.
\<close>

definition send_alert_body :: "transport \<Rightarrow> monitor \<Rightarrow> incident \<Rightarrow> py_error + email" where
  "send_alert_body tr m inc =
     (let subject = ''Security Alert: '' @ model_name m @ '' - ''
                      @ severity_upper (i_severity inc) @ '' Severity''
      in case smtp_settings (alert_settings m) of
        None \<Rightarrow> Inl (KeyError ''smtp_settings'')
      | Some smtp \<Rightarrow>
     (case sender smtp of
        None \<Rightarrow> Inl (KeyError ''sender'')
      | Some sndr \<Rightarrow>
     (case email_recipients (alert_settings m) of
        None \<Rightarrow> Inl (KeyError ''email_recipients'')
      | Some rcpts \<Rightarrow>
     (let msg = \<lparr>msg_subject = subject, msg_from = sndr,
                 msg_to = join '', '' rcpts, msg_body = inc\<rparr>
      in case server smtp of
        None \<Rightarrow> Inl (KeyError ''server'')
      | Some srv \<Rightarrow>
     (case port smtp of
        None \<Rightarrow> Inl (KeyError ''port'')
      | Some prt \<Rightarrow>
     (case smtp_connect tr srv prt of
        Some e \<Rightarrow> Inl e
      | None \<Rightarrow>
     (case (if use_tls smtp = Some True then smtp_starttls tr else None) of
        Some e \<Rightarrow> Inl e
      | None \<Rightarrow>
     (case (case username smtp of
              None \<Rightarrow> None
            | Some u \<Rightarrow> (case password smtp of
                          None \<Rightarrow> Some (KeyError ''password'')
                        | Some pw \<Rightarrow> smtp_login tr u pw)) of
        Some e \<Rightarrow> Inl e
      | None \<Rightarrow>
     (case smtp_send_message tr msg of
        Some e \<Rightarrow> Inl e
      | None \<Rightarrow> Inr msg)))))))))"

text \<open>
  \<open>_send_alert\<close>: whatever the block raises is caught and logged; the method returns
  normally and writes no field of the monitor.
\<close>

definition send_alert :: "transport \<Rightarrow> monitor \<Rightarrow> incident \<Rightarrow> event list" where
  "send_alert tr m inc =
     (case send_alert_body tr m inc of
        Inl e \<Rightarrow> [LogError ''Failed to send alert'' e]
      | Inr msg \<Rightarrow> [EmailSent msg])"

text \<open>
  \<open>_log_incident\<close>: the incident dictionary is built, written as a warning to the log
  and appended to the incident log; then the alert is sent when the severity is medium
  or high. \<open>ip\<close> is \<open>request_data["ip_address"]\<close>, which \<open>detect_threat\<close> has read before.
\<close>

definition incident_of :: "threat_assessment \<Rightarrow> string \<Rightarrow> incident" where
  "incident_of ta ip =
     \<lparr>i_timestamp = timestamp ta, i_severity = severity ta,
      threats = threats_detected ta, i_ip_address = ip, i_details = details ta\<rparr>"

definition log_incident ::
  "transport \<Rightarrow> monitor \<Rightarrow> threat_assessment \<Rightarrow> string \<Rightarrow> monitor \<times> event list" where
  "log_incident tr m ta ip =
     (let inc = incident_of ta ip;
          m1 = m\<lparr>incident_log := incident_log m @ [inc]\<rparr>
      in if severity ta \<in> set [Medium, High]
         then (m1, LogWarning inc # send_alert tr m1 inc)
         else (m1, [LogWarning inc]))"

section \<open>Threat detection\<close>

text \<open>The request dictionary; both keys are read with \<open>request_data[...]\<close>.\<close>

record request_data =
  ip_address :: "string option"
  input_data :: "pyval option"

text \<open>
  What one call of \<open>detect_threat\<close> takes from outside: the clock reading that stamps
  the assessment, the later reading made by the rate check, and the mail server.
\<close>

record call_env =
  now_assess :: int
  now_rate :: int
  mail :: transport

definition initial_assessment :: "int \<Rightarrow> threat_assessment" where
  "initial_assessment t = \<lparr>timestamp = t, severity = Low, threats_detected = [], details = []\<rparr>"

text \<open>The two rules of \<open>detect_threat\<close>, in the order in which it applies them.\<close>

definition rate_rule :: "bool \<Rightarrow> threat_assessment \<Rightarrow> threat_assessment" where
  "rate_rule exceeded ta =
     (if exceeded
      then ta\<lparr>threats_detected := threats_detected ta @ [''rate_limit_exceeded''],
              severity := Medium\<rparr>
      else ta)"

definition pattern_rule :: "pattern_result \<Rightarrow> threat_assessment \<Rightarrow> threat_assessment" where
  "pattern_rule pattern_check ta =
     (if suspicious_patterns pattern_check \<noteq> []
      then ta\<lparr>threats_detected := threats_detected ta @ suspicious_patterns pattern_check,
              severity := High,
              details := AList.update ''patterns'' pattern_check (details ta)\<rparr>
      else ta)"

text \<open>
  \<open>detect_threat\<close>: the value returned or the exception raised, the monitor afterwards,
  and what was written to the sinks. A missing request key raises \<open>KeyError\<close> where the
  source reads it: \<open>ip_address\<close> before the rate check, \<open>input_data\<close> after it.
\<close>

definition detect_threat ::
  "call_env \<Rightarrow> monitor \<Rightarrow> request_data
     \<Rightarrow> (py_error + threat_assessment) \<times> monitor \<times> event list" where
  "detect_threat env m req =
     (let ta0 = initial_assessment (now_assess env)
      in case ip_address req of
        None \<Rightarrow> (Inl (KeyError ''ip_address''), m, [])
      | Some ip \<Rightarrow>
     (case check_rate_limit (now_rate env) m ip of
        (Inl e, m1) \<Rightarrow> (Inl e, m1, [])
      | (Inr exceeded, m1) \<Rightarrow>
     (let ta1 = rate_rule exceeded ta0
      in case input_data req of
        None \<Rightarrow> (Inl (KeyError ''input_data''), m1, [])
      | Some inp \<Rightarrow>
     (case analyze_input_patterns inp of
        (pattern_check, evs1) \<Rightarrow>
     (let ta2 = pattern_rule pattern_check ta1
      in if threats_detected ta2 \<noteq> []
         then (case log_incident (mail env) m1 ta2 ip of
                 (m2, evs2) \<Rightarrow> (Inr ta2, m2, evs1 @ evs2))
         else (Inr ta2, m1, evs1))))))"

text \<open>
  A session: calls of \<open>detect_threat\<close> in order, each with its environment and request,
  whatever each call returns or raises. The result is the monitor at the end and
  everything written to the sinks.
\<close>

fun run :: "monitor \<Rightarrow> (call_env \<times> request_data) list \<Rightarrow> monitor \<times> event list" where
  "run m [] = (m, [])"
| "run m (c # cs) =
     (case detect_threat (fst c) m (snd c) of
        (r, m1, evs) \<Rightarrow> (case run m1 cs of (m2, evs') \<Rightarrow> (m2, evs @ evs')))"

section \<open>Incident summary\<close>

record incident_summary =
  total_incidents :: nat
  by_severity :: "(severity \<times> nat) list"
  unique_ips :: nat
  most_common_threats :: "(string \<times> nat) list"

definition hour :: int where
  "hour = 3600 * 1000000"

text \<open>
  \<open>threat_counts[threat] += 1\<close> on a \<open>defaultdict(int)\<close>, kept in insertion order: a new
  key enters at the end with count 1, a known key keeps its place.
\<close>

definition increment :: "string \<Rightarrow> (string \<times> nat) list \<Rightarrow> (string \<times> nat) list" where
  "increment threat threat_counts =
     AList.update threat
       ((case map_of threat_counts threat of None \<Rightarrow> 0 | Some c \<Rightarrow> c) + 1) threat_counts"

text \<open>
  \<open>sorted(items, key=..., reverse=True)\<close>: a stable sort that keeps the original order
  of items with equal keys; CPython reverses the list, sorts it stably in ascending
  order and reverses the result.
\<close>

definition sorted_reverse :: "('a \<Rightarrow> nat) \<Rightarrow> 'a list \<Rightarrow> 'a list" where
  "sorted_reverse key xs = rev (sort_key key (rev xs))"

definition get_common_threats :: "incident list \<Rightarrow> (string \<times> nat) list" where
  "get_common_threats incidents =
     sorted_reverse snd (fold (\<lambda>inc counts. fold increment (threats inc) counts) incidents [])"

text \<open>
  \<open>get_incident_summary\<close>, with the clock reading \<open>now\<close> as input. The method assigns no
  field; the monitor is returned with the summary so that this can be stated.
\<close>

definition get_incident_summary :: "int \<Rightarrow> monitor \<Rightarrow> int \<Rightarrow> incident_summary \<times> monitor" where
  "get_incident_summary now m hours =
     (let cutoff_time = now - hours * hour;
          recent_incidents = filter (\<lambda>i. i_timestamp i > cutoff_time) (incident_log m)
      in (\<lparr>total_incidents = length recent_incidents,
           by_severity = map (\<lambda>sev. (sev, length (filter (\<lambda>i. i_severity i = sev) recent_incidents)))
                             [Low, Medium, High],
           unique_ips = card (set (map i_ip_address recent_incidents)),
           most_common_threats = get_common_threats recent_incidents\<rparr>, m))"

section \<open>Notions used to state the properties\<close>

text \<open>
  The requests of one source lie in one 60-second window when any two of their clock
  readings differ by less than a minute.
\<close>

definition one_window :: "int list \<Rightarrow> bool" where
  "one_window ts = (\<forall>a\<in>set ts. \<forall>b\<in>set ts. b - a < minute)"

text \<open>The clock readings of the checks that a sequence makes for one source.\<close>

definition times_of :: "string \<Rightarrow> (string \<times> int) list \<Rightarrow> int list" where
  "times_of ip cs = map snd (filter (\<lambda>c. fst c = ip) cs)"

text \<open>A complete configuration with rate threshold \<open>T\<close>, and the monitor built from it.\<close>

definition example_settings :: "int \<Rightarrow> alert_cfg" where
  "example_settings T =
     \<lparr>email_recipients = Some [''soc@example.org''],
      smtp_settings = Some \<lparr>sender = Some ''monitor@example.org'', server = Some ''localhost'',
                             port = Some 25, use_tls = None, username = None, password = None\<rparr>,
      alert_thresholds = Some \<lparr>max_requests_per_minute = Some T,
                                suspicious_pattern_threshold = Some (1 / 2),
                                failed_attempts_threshold = Some 3\<rparr>\<rparr>"

definition example_monitor :: "int \<Rightarrow> monitor" where
  "example_monitor T =
     \<lparr>model_name = ''demo'', alert_settings = example_settings T,
      incident_log = [], request_history = Map.empty\<rparr>"

text \<open>A mail server that accepts everything, and one that refuses the connection.\<close>

definition ok_transport :: transport where
  "ok_transport = \<lparr>smtp_connect = (\<lambda>srv prt. None), smtp_starttls = None,
                    smtp_login = (\<lambda>u pw. None), smtp_send_message = (\<lambda>msg. None)\<rparr>"

definition refusing_transport :: transport where
  "refusing_transport =
     \<lparr>smtp_connect = (\<lambda>srv prt. Some (OSError ''connection refused'')), smtp_starttls = None,
      smtp_login = (\<lambda>u pw. None), smtp_send_message = (\<lambda>msg. None)\<rparr>"

text \<open>Example calls: their environment, requests from one source, and their inputs.\<close>

definition example_env :: "transport \<Rightarrow> call_env" where
  "example_env tr = \<lparr>now_assess = 100000000, now_rate = 100000007, mail = tr\<rparr>"

definition request_with :: "pyval \<Rightarrow> request_data" where
  "request_with v = \<lparr>ip_address = Some ''10.0.0.1'', input_data = Some v\<rparr>"

definition int_list :: "int list \<Rightarrow> pyval" where
  "int_list xs = PyList (map (\<lambda>x. Scalar (PyInt x)) xs)"

text \<open>
  The monitor with threshold 0 after one request of the source, and the assessment that
  the rate rule alone produces on it.
\<close>

definition busy_monitor :: monitor where
  "busy_monitor = (example_monitor 0)\<lparr>request_history := [''10.0.0.1'' \<mapsto> [100000007]]\<rparr>"

definition rate_assessment :: threat_assessment where
  "rate_assessment = \<lparr>timestamp = 100000000, severity = Medium,
                        threats_detected = [''rate_limit_exceeded''], details = []\<rparr>"

text \<open>
  The exceptions that leave \<open>detect_threat\<close>: a key missing from the request, or a key
  missing from the threshold settings.
\<close>

definition request_errors :: "py_error set" where
  "request_errors = {KeyError ''ip_address'', KeyError ''input_data''}"

definition threshold_errors :: "py_error set" where
  "threshold_errors = {KeyError ''alert_thresholds'', KeyError ''max_requests_per_minute''}"

text \<open>
  The record that one call of \<open>_send_alert\<close> for an incident leaves in the sinks: the
  message sent, whose body is the incident, or the logged failure.
\<close>

fun alert_attempt :: "event \<Rightarrow> incident \<Rightarrow> bool" where
  "alert_attempt (EmailSent msg) inc = (msg_body msg = inc)"
| "alert_attempt (LogError prefix e) inc = (prefix = ''Failed to send alert'')"
| "alert_attempt (LogWarning i) inc = False"

text \<open>
  The incidents for which the sinks hold the warning followed at once by such a record,
  in order.
\<close>

fun alerted :: "event list \<Rightarrow> incident list" where
  "alerted (LogWarning inc # ev # evs) =
     (if alert_attempt ev inc then inc # alerted evs else alerted (ev # evs))"
| "alerted (ev # evs) = alerted evs"
| "alerted [] = []"

text \<open>Settings without the \<open>alert_thresholds\<close> key, and the monitor built from them.\<close>

definition unconfigured :: alert_cfg where
  "unconfigured = \<lparr>email_recipients = Some [''soc@example.org''],
                    smtp_settings = smtp_settings (example_settings 0),
                    alert_thresholds = None\<rparr>"

text \<open>The settings hold \<open>alert_thresholds\<close> and, in it, \<open>max_requests_per_minute\<close>.\<close>

definition has_threshold :: "alert_cfg \<Rightarrow> bool" where
  "has_threshold settings =
     (case alert_thresholds settings of
        None \<Rightarrow> False
      | Some th \<Rightarrow> max_requests_per_minute th \<noteq> None)"

definition unconfigured_monitor :: monitor where
  "unconfigured_monitor =
     \<lparr>model_name = ''demo'', alert_settings = unconfigured,
      incident_log = [], request_history = Map.empty\<rparr>"

text \<open>
  The input cannot be coerced into a uniform numeric array: \<open>np.asarray\<close> refuses it, or
  the array it builds holds an element that is not a number.
\<close>

definition coercion_fails :: "pyval \<Rightarrow> bool" where
  "coercion_fails inp =
     (case np_asarray inp of Inl e \<Rightarrow> True | Inr a \<Rightarrow> as_ints (items a) = None)"

text \<open>The exceptions that the array operations of the analysis raise.\<close>

definition analysis_errors :: "py_error set" where
  "analysis_errors = {ValueError, TypeError, ZeroDivisionError}"

text \<open>
  Two inputs on which the analysis fails: an array of shape \<open>(1, 3)\<close> with one extreme
  value, and a list whose two elements have different lengths.
\<close>

definition wide_row :: pyval where
  "wide_row = PyList [int_list [2000000, 0, 0]]"

definition ragged :: pyval where
  "ragged = PyList [int_list [2000000], int_list []]"




text \<open>
  The assessment of a request whose input holds one extreme value, and a request without
  the \<open>input_data\<close> key.
\<close>

definition extreme_assessment :: threat_assessment where
  "extreme_assessment =
     \<lparr>timestamp = 100000000, severity = High, threats_detected = [''extreme_values''],
      details = [(''patterns'', \<lparr>suspicious_patterns = [''extreme_values''], analysis_details = []\<rparr>)]\<rparr>"

definition no_input_request :: request_data where
  "no_input_request = \<lparr>ip_address = Some ''10.0.0.1'', input_data = None\<rparr>"

section \<open>Rate limiting: properties\<close>

lemma times_of_Cons:
  "times_of ip (c # cs) = (if fst c = ip then snd c # times_of ip cs else times_of ip cs)"
  by (simp add: times_of_def)

lemma one_window_tail: "one_window (t # ts) \<Longrightarrow> one_window ts"
  by (simp add: one_window_def)

lemma one_window_head: "one_window (t # ts) \<Longrightarrow> x \<in> set ts \<Longrightarrow> x - t < minute"
  by (simp add: one_window_def)

lemma check_rate_limit_settings:
  "alert_settings (snd (check_rate_limit t m ip)) = alert_settings m"
  by (simp add: check_rate_limit_def Let_def split: option.splits)

lemma check_rate_limit_history:
  "history_of (snd (check_rate_limit t m ip)) ip' =
     (if ip' = ip then filter (\<lambda>ts. t - ts < minute) (history_of m ip) @ [t]
      else history_of m ip')"
  by (simp add: check_rate_limit_def history_of_def Let_def split: option.splits)

lemma check_rate_limit_value:
  assumes "alert_thresholds (alert_settings m) = Some th"
    and "max_requests_per_minute th = Some T"
  shows "fst (check_rate_limit t m ip) =
           Inr (T < int (length (filter (\<lambda>ts. t - ts < minute) (history_of m ip))))"
  using assms by (simp add: check_rate_limit_def Let_def)

text \<open>
  The general form: with a history whose entries all survive the pruning of every later
  check of the source, a check of that source compares the threshold with the length of
  the history plus the number of the source's earlier checks in the sequence.
\<close>

lemma check_all_nth:
  assumes "alert_thresholds (alert_settings m) = Some th"
    and "max_requests_per_minute th = Some T"
    and "\<forall>t\<in>set (times_of ip cs). \<forall>x\<in>set (history_of m ip). t - x < minute"
    and "one_window (times_of ip cs)"
    and "j < length cs" and "fst (cs ! j) = ip"
  shows "check_all m cs ! j =
           Inr (T < int (length (history_of m ip) + length (times_of ip (take j cs))))"
  using assms
proof (induction cs arbitrary: m j)
  case Nil
  then show ?case by simp
next
  case (Cons c cs)
  obtain r m' where step: "check_rate_limit (snd c) m (fst c) = (r, m')"
    by (cases "check_rate_limit (snd c) m (fst c)")
  have r: "r = Inr (T < int (length (filter (\<lambda>ts. snd c - ts < minute) (history_of m (fst c)))))"
    using check_rate_limit_value [OF Cons.prems(1,2), of "snd c" "fst c"] step by simp
  have s': "alert_thresholds (alert_settings m') = Some th"
    using check_rate_limit_settings [of "snd c" m "fst c"] step Cons.prems(1) by simp
  have h': "history_of m' ip =
     (if ip = fst c then filter (\<lambda>ts. snd c - ts < minute) (history_of m (fst c)) @ [snd c]
      else history_of m ip)"
    using check_rate_limit_history [of "snd c" m "fst c" ip] step by simp
  show ?case
  proof (cases j)
    case 0
    then have "fst c = ip" using Cons.prems(6) by simp
    then have "filter (\<lambda>ts. snd c - ts < minute) (history_of m ip) = history_of m ip"
      using Cons.prems(3) by (auto simp: times_of_Cons filter_id_conv)
    then show ?thesis using 0 step r \<open>fst c = ip\<close> by (simp add: times_of_def)
  next
    case (Suc j')
    have j': "j' < length cs" "fst (cs ! j') = ip"
      using Suc Cons.prems(5,6) by simp_all
    have ow: "one_window (times_of ip cs)"
      using Cons.prems(4) by (auto simp: times_of_Cons dest: one_window_tail split: if_splits)
    show ?thesis
    proof (cases "fst c = ip")
      case True
      have keep: "filter (\<lambda>ts. snd c - ts < minute) (history_of m ip) = history_of m ip"
        using Cons.prems(3) True by (auto simp: times_of_Cons filter_id_conv)
      have hist: "history_of m' ip = history_of m ip @ [snd c]"
        using h' True keep by simp
      have pre: "\<forall>t\<in>set (times_of ip cs). \<forall>x\<in>set (history_of m' ip). t - x < minute"
        using Cons.prems(3,4) True hist by (auto simp: times_of_Cons dest: one_window_head)
      have "check_all m' cs ! j' =
           Inr (T < int (length (history_of m' ip) + length (times_of ip (take j' cs))))"
        by (rule Cons.IH [OF s' Cons.prems(2) pre ow j'])
      then show ?thesis using Suc step hist True by (simp add: times_of_Cons)
    next
      case False
      have hist: "history_of m' ip = history_of m ip"
        using h' False by auto
      have pre: "\<forall>t\<in>set (times_of ip cs). \<forall>x\<in>set (history_of m' ip). t - x < minute"
        using Cons.prems(3) False hist by (auto simp: times_of_Cons)
      have "check_all m' cs ! j' =
           Inr (T < int (length (history_of m' ip) + length (times_of ip (take j' cs))))"
        by (rule Cons.IH [OF s' Cons.prems(2) pre ow j'])
      then show ?thesis using Suc step hist False by (simp add: times_of_Cons)
    qed
  qed
qed


text \<open>
  Claim C1, as the code has it. A monitor has the threshold \<open>T\<close> and no history for the
  source \<open>ip\<close>; a sequence of rate checks, of this source and of others in any
  interleaving, has all its checks of \<open>ip\<close> in one 60-second window. Then a check of \<open>ip\<close>
  returns true exactly when the number of the source's earlier checks is strictly
  greater than \<open>T\<close>: the request itself is recorded and not counted. So the first \<open>T + 1\<close>
  requests of the source do not trip the limit, and request \<open>T + 2\<close> is the first that
  does.
\<close>

theorem rate_limit_threshold:
  assumes "alert_thresholds (alert_settings m) = Some th"
    and "max_requests_per_minute th = Some T"
    and "history_of m ip = []"
    and "one_window (times_of ip cs)"
    and "j < length cs" and "fst (cs ! j) = ip"
  shows "check_all m cs ! j = Inr (T < int (length (times_of ip (take j cs))))"
  using check_all_nth [OF assms(1,2) _ assms(4,5,6)] assms(3) by simp

text \<open>
  Threshold 2, four requests of one source and one of another within a minute: the
  third request of the source (two before it) passes, the fourth (three before it) trips.
\<close>

theorem rate_limit_threshold_witness:
  "alert_thresholds (alert_settings (example_monitor 2)) = Some (the (alert_thresholds (example_settings 2)))
   \<and> max_requests_per_minute (the (alert_thresholds (example_settings 2))) = Some 2
   \<and> history_of (example_monitor 2) ''10.0.0.1'' = []
   \<and> one_window (times_of ''10.0.0.1''
        [(''10.0.0.1'', 0), (''10.0.0.2'', 500000), (''10.0.0.1'', 1000000),
         (''10.0.0.1'', 2000000), (''10.0.0.1'', 59999999)])
   \<and> check_all (example_monitor 2)
        [(''10.0.0.1'', 0), (''10.0.0.2'', 500000), (''10.0.0.1'', 1000000),
         (''10.0.0.1'', 2000000), (''10.0.0.1'', 59999999)] ! 3 = Inr False
   \<and> check_all (example_monitor 2)
        [(''10.0.0.1'', 0), (''10.0.0.2'', 500000), (''10.0.0.1'', 1000000),
         (''10.0.0.1'', 2000000), (''10.0.0.1'', 59999999)] ! 4 = Inr True"
proof -
  let ?cs = "[(''10.0.0.1'', 0), (''10.0.0.2'', 500000), (''10.0.0.1'', 1000000),
         (''10.0.0.1'', 2000000), (''10.0.0.1'', 59999999)] :: (string \<times> int) list"
  let ?th = "the (alert_thresholds (example_settings 2))"
  have a: "alert_thresholds (alert_settings (example_monitor 2)) = Some ?th"
    by (simp add: example_monitor_def example_settings_def)
  have b: "max_requests_per_minute ?th = Some 2"
    by (simp add: example_settings_def)
  have c: "history_of (example_monitor 2) ''10.0.0.1'' = []"
    by (simp add: history_of_def example_monitor_def)
  have d: "one_window (times_of ''10.0.0.1'' ?cs)"
    by (simp add: one_window_def times_of_def minute_def)
  have e3: "check_all (example_monitor 2) ?cs ! 3 = Inr False"
    using rate_limit_threshold [OF a b c d, of 3] by (simp add: times_of_def)
  have e4: "check_all (example_monitor 2) ?cs ! 4 = Inr True"
    using rate_limit_threshold [OF a b c d, of 4] by (simp add: times_of_def)
  show ?thesis using a b c d e3 e4 by blast
qed

text \<open>
  Against C1 as worded ("the (T+1)th request does"): with threshold 2 and three requests
  of one source one second apart, the third request is not flagged.
\<close>

theorem rate_limit_third_of_two_counterexample:
  "max_requests_per_minute (the (alert_thresholds (alert_settings (example_monitor 2)))) = Some 2
   \<and> one_window [0, 1000000, 2000000]
   \<and> check_all (example_monitor 2)
        [(''10.0.0.1'', 0), (''10.0.0.1'', 1000000), (''10.0.0.1'', 2000000)] ! 2 = Inr False"
  by (simp add: check_rate_limit_def history_of_def example_monitor_def example_settings_def
        one_window_def minute_def Let_def)

section \<open>Threat detection: properties\<close>

lemma check_rate_limit_cases:
  "(\<exists>b. fst (check_rate_limit t m ip) = Inr b) \<or> (\<exists>e\<in>threshold_errors. fst (check_rate_limit t m ip) = Inl e)"
  by (simp add: check_rate_limit_def threshold_errors_def Let_def split: option.splits)

lemma check_rate_limit_log:
  "incident_log (snd (check_rate_limit t m ip)) = incident_log m"
  by (simp add: check_rate_limit_def Let_def split: option.splits)

lemma check_rate_limit_name:
  "model_name (snd (check_rate_limit t m ip)) = model_name m"
  by (simp add: check_rate_limit_def Let_def split: option.splits)

lemma log_incident_monitor:
  "fst (log_incident tr m ta ip) = m\<lparr>incident_log := incident_log m @ [incident_of ta ip]\<rparr>"
  by (simp add: log_incident_def Let_def)

lemma log_incident_events:
  "snd (log_incident tr m ta ip) =
     LogWarning (incident_of ta ip) #
       (if severity ta = Low then []
        else send_alert tr (m\<lparr>incident_log := incident_log m @ [incident_of ta ip]\<rparr>) (incident_of ta ip))"
  by (cases "severity ta") (simp_all add: log_incident_def Let_def)

text \<open>The normal path of \<open>detect_threat\<close>, in one equation.\<close>

lemma detect_threat_normal:
  assumes "ip_address req = Some ip" and "input_data req = Some inp"
    and "check_rate_limit (now_rate env) m ip = (Inr exceeded, m1)"
    and "analyze_input_patterns inp = (pc, evs1)"
  shows "detect_threat env m req =
     (let ta = pattern_rule pc (rate_rule exceeded (initial_assessment (now_assess env)))
      in if threats_detected ta \<noteq> []
         then (Inr ta, m1\<lparr>incident_log := incident_log m1 @ [incident_of ta ip]\<rparr>,
               evs1 @ snd (log_incident (mail env) m1 ta ip))
         else (Inr ta, m1, evs1))"
  using assms
  by (simp add: detect_threat_def Let_def case_prod_beta log_incident_monitor)

lemma detect_threat_returns:
  assumes "detect_threat env m req = (Inr ta, m', evs)"
  obtains ip inp exceeded m1 pc evs1 where
    "ip_address req = Some ip" "input_data req = Some inp"
    "check_rate_limit (now_rate env) m ip = (Inr exceeded, m1)"
    "analyze_input_patterns inp = (pc, evs1)"
  using assms
  by (auto simp: detect_threat_def Let_def split: option.splits prod.splits sum.splits if_splits)

lemma detect_threat_raises:
  assumes "detect_threat env m req = (Inl e, m', evs)"
  shows "e \<in> request_errors \<union> threshold_errors \<and> evs = [] \<and> incident_log m' = incident_log m"
proof (cases "ip_address req")
  case None
  then show ?thesis using assms by (simp add: detect_threat_def request_errors_def)
next
  case (Some ip)
  obtain r m1 where c: "check_rate_limit (now_rate env) m ip = (r, m1)"
    by (cases "check_rate_limit (now_rate env) m ip")
  have l: "incident_log m1 = incident_log m"
    using check_rate_limit_log [of "now_rate env" m ip] c by simp
  show ?thesis
  proof (cases r)
    case (Inl e')
    then have "e' \<in> threshold_errors"
      using check_rate_limit_cases [of "now_rate env" m ip] c by auto
    then show ?thesis using assms Some c Inl l by (simp add: detect_threat_def)
  next
    case (Inr exceeded)
    show ?thesis
    proof (cases "input_data req")
      case None
      then show ?thesis using assms Some c Inr l
        by (simp add: detect_threat_def Let_def request_errors_def)
    next
      case (Some inp)
      then show ?thesis using assms \<open>ip_address req = Some ip\<close> c Inr
        by (simp add: detect_threat_def Let_def split: prod.splits if_splits)
    qed
  qed
qed


text \<open>The example calls, evaluated.\<close>

lemma analyze_small_list:
  "analyze_input_patterns (int_list [1, 2, 3]) =
     (\<lparr>suspicious_patterns = [], analysis_details = []\<rparr>, [])"
  by (simp add: analyze_input_patterns_def analyze_body_def np_asarray_def np_abs_def
        true_divide_def count_nonzero_def arr_size_def int_list_def)

lemma analyze_extreme_list:
  "analyze_input_patterns (int_list [2000000, 1]) =
     (\<lparr>suspicious_patterns = [''extreme_values''], analysis_details = []\<rparr>, [])"
  by (simp add: analyze_input_patterns_def analyze_body_def np_asarray_def np_abs_def
        true_divide_def count_nonzero_def arr_size_def int_list_def)

lemma check_busy:
  "check_rate_limit 100000007 busy_monitor ''10.0.0.1'' =
     (Inr True, busy_monitor\<lparr>request_history := [''10.0.0.1'' \<mapsto> [100000007, 100000007]]\<rparr>)"
  by (simp add: check_rate_limit_def busy_monitor_def example_monitor_def example_settings_def
        history_of_def minute_def Let_def)

lemma check_fresh:
  "0 \<le> T \<Longrightarrow> check_rate_limit 100000007 (example_monitor T) ''10.0.0.1'' =
     (Inr False, (example_monitor T)\<lparr>request_history := [''10.0.0.1'' \<mapsto> [100000007]]\<rparr>)"
  by (simp add: check_rate_limit_def example_monitor_def example_settings_def
        history_of_def minute_def Let_def)

text \<open>
  Claim C2. Whenever \<open>detect_threat\<close> returns an assessment, that assessment is the
  initial one (severity low) after the rate rule and then the pattern rule. If neither
  fires it stays low; if only the rate check fires it is medium and \<open>details\<close> has no
  \<open>patterns\<close> entry; if the pattern analysis returns any label it is high and
  \<open>details["patterns"]\<close> is the analysis result, whether or not the rate check fired. The
  severity does not decrease from one rule to the next.
\<close>

theorem severity_combination:
  assumes "detect_threat env m req = (Inr ta, m', evs)"
    and "ip_address req = Some ip" and "input_data req = Some inp"
  shows "\<exists>exceeded. fst (check_rate_limit (now_rate env) m ip) = Inr exceeded \<and>
     (let pc = fst (analyze_input_patterns inp);
          ta0 = initial_assessment (now_assess env);
          ta1 = rate_rule exceeded ta0
      in ta = pattern_rule pc ta1
         \<and> severity ta0 = Low
         \<and> (\<not> exceeded \<and> suspicious_patterns pc = [] \<longrightarrow>
              severity ta = Low \<and> map_of (details ta) ''patterns'' = None)
         \<and> (exceeded \<and> suspicious_patterns pc = [] \<longrightarrow>
              severity ta = Medium \<and> map_of (details ta) ''patterns'' = None)
         \<and> (suspicious_patterns pc \<noteq> [] \<longrightarrow>
              severity ta = High \<and> map_of (details ta) ''patterns'' = Some pc)
         \<and> severity_rank (severity ta0) \<le> severity_rank (severity ta1)
         \<and> severity_rank (severity ta1) \<le> severity_rank (severity ta))"
proof -
  obtain ip' inp' exceeded m1 pc evs1 where n:
    "ip_address req = Some ip'" "input_data req = Some inp'"
    "check_rate_limit (now_rate env) m ip' = (Inr exceeded, m1)"
    "analyze_input_patterns inp' = (pc, evs1)"
    using assms(1) by (rule detect_threat_returns)
  have eq: "ip' = ip" "inp' = inp" using n(1,2) assms(2,3) by simp_all
  have ta: "ta = pattern_rule pc (rate_rule exceeded (initial_assessment (now_assess env)))"
    using detect_threat_normal [OF n] assms(1) by (simp add: Let_def split: if_splits)
  have c: "fst (check_rate_limit (now_rate env) m ip) = Inr exceeded"
    using n(3) eq by simp
  have p: "fst (analyze_input_patterns inp) = pc" using n(4) eq by simp
  show ?thesis
    apply (rule exI [of _ exceeded])
    apply (simp only: c p Let_def ta)
    apply (cases exceeded; cases "suspicious_patterns pc = []")
    apply (simp_all add: pattern_rule_def rate_rule_def initial_assessment_def)
    done
qed


lemma triple_eq: "fst x = a \<Longrightarrow> x = (a, fst (snd x), snd (snd x))"
  by (cases x) auto

lemma summary_depends_on_log:
  "incident_log m' = incident_log m \<Longrightarrow>
     fst (get_incident_summary now m' hours) = fst (get_incident_summary now m hours)"
  by (simp add: get_incident_summary_def Let_def)

lemma detect_threat_log:
  assumes "detect_threat env m req = (Inr ta, m', evs)" and "ip_address req = Some ip"
  shows "incident_log m' =
           (if threats_detected ta \<noteq> [] then incident_log m @ [incident_of ta ip] else incident_log m)"
proof -
  obtain ip' inp exceeded m1 pc evs1 where n:
    "ip_address req = Some ip'" "input_data req = Some inp"
    "check_rate_limit (now_rate env) m ip' = (Inr exceeded, m1)"
    "analyze_input_patterns inp = (pc, evs1)"
    using assms(1) by (rule detect_threat_returns)
  have l: "incident_log m1 = incident_log m"
    using check_rate_limit_log [of "now_rate env" m ip'] n(3) by simp
  show ?thesis
    using detect_threat_normal [OF n] assms n(1) l by (auto simp: Let_def split: if_splits)
qed

text \<open>
  Claim C3. A call of \<open>detect_threat\<close> that raises leaves the incident log as it was; a
  call that returns an assessment with labels appends exactly the incident built from
  that assessment and the source; a call that returns an assessment without labels leaves
  the log as it was, so every later summary is the one the monitor would have given
  without the call.
\<close>

theorem incident_persistence:
  assumes "detect_threat env m req = (r, m', evs)"
  shows "(\<forall>e. r = Inl e \<longrightarrow> incident_log m' = incident_log m)
       \<and> (\<forall>ta. r = Inr ta \<and> threats_detected ta \<noteq> [] \<longrightarrow>
             (\<exists>ip. ip_address req = Some ip \<and> incident_log m' = incident_log m @ [incident_of ta ip]))
       \<and> (\<forall>ta. r = Inr ta \<and> threats_detected ta = [] \<longrightarrow>
             incident_log m' = incident_log m
             \<and> (\<forall>now hours. fst (get_incident_summary now m' hours) =
                             fst (get_incident_summary now m hours)))"
proof (cases r)
  case (Inl e)
  then show ?thesis using detect_threat_raises [of env m req e m' evs] assms by simp
next
  case (Inr ta)
  then obtain ip where ip: "ip_address req = Some ip"
    using assms by (auto elim: detect_threat_returns)
  have "incident_log m' =
           (if threats_detected ta \<noteq> [] then incident_log m @ [incident_of ta ip] else incident_log m)"
    using detect_threat_log assms Inr ip by simp
  then show ?thesis using Inr ip by (auto intro: summary_depends_on_log)
qed


lemma detect_clean:
  assumes "0 \<le> T"
  shows "detect_threat (example_env tr) (example_monitor T) (request_with (int_list [1, 2, 3])) =
     (Inr (initial_assessment 100000000),
      (example_monitor T)\<lparr>request_history := [''10.0.0.1'' \<mapsto> [100000007]]\<rparr>, [])"
proof -
  have a: "ip_address (request_with (int_list [1, 2, 3])) = Some ''10.0.0.1''"
    and b: "input_data (request_with (int_list [1, 2, 3])) = Some (int_list [1, 2, 3])"
    by (simp_all add: request_with_def)
  have c: "check_rate_limit (now_rate (example_env tr)) (example_monitor T) ''10.0.0.1'' =
     (Inr False, (example_monitor T)\<lparr>request_history := [''10.0.0.1'' \<mapsto> [100000007]]\<rparr>)"
    using check_fresh [OF assms] by (simp add: example_env_def)
  show ?thesis
    by (subst detect_threat_normal [OF a b c analyze_small_list])
       (simp add: Let_def pattern_rule_def rate_rule_def initial_assessment_def example_env_def)
qed

lemma detect_busy:
  "detect_threat (example_env tr) busy_monitor (request_with (int_list [1, 2, 3])) =
     (Inr rate_assessment,
      busy_monitor\<lparr>request_history := [''10.0.0.1'' \<mapsto> [100000007, 100000007]],
                   incident_log := [incident_of rate_assessment ''10.0.0.1'']\<rparr>,
      LogWarning (incident_of rate_assessment ''10.0.0.1'') #
        send_alert tr
          (busy_monitor\<lparr>request_history := [''10.0.0.1'' \<mapsto> [100000007, 100000007]],
                        incident_log := [incident_of rate_assessment ''10.0.0.1'']\<rparr>)
          (incident_of rate_assessment ''10.0.0.1''))"
proof -
  have a: "ip_address (request_with (int_list [1, 2, 3])) = Some ''10.0.0.1''"
    and b: "input_data (request_with (int_list [1, 2, 3])) = Some (int_list [1, 2, 3])"
    by (simp_all add: request_with_def)
  have c: "check_rate_limit (now_rate (example_env tr)) busy_monitor ''10.0.0.1'' =
     (Inr True, busy_monitor\<lparr>request_history := [''10.0.0.1'' \<mapsto> [100000007, 100000007]]\<rparr>)"
    using check_busy by (simp add: example_env_def)
  have t: "pattern_rule \<lparr>suspicious_patterns = [], analysis_details = []\<rparr>
             (rate_rule True (initial_assessment 100000000)) = rate_assessment"
    by (simp add: pattern_rule_def rate_rule_def initial_assessment_def rate_assessment_def)
  have l: "incident_log busy_monitor = []"
    by (simp add: busy_monitor_def example_monitor_def)
  have s: "severity rate_assessment = Medium" by (simp add: rate_assessment_def)
  have n: "threats_detected rate_assessment \<noteq> []" by (simp add: rate_assessment_def)
  show ?thesis
    by (subst detect_threat_normal [OF a b c analyze_small_list])
       (simp add: Let_def t l s n log_incident_events example_env_def)
qed

lemma send_refused:
  "model_name m = ''demo'' \<Longrightarrow> alert_settings m = example_settings 0 \<Longrightarrow>
   send_alert_body refusing_transport m inc = Inl (OSError ''connection refused'')"
  by (simp add: send_alert_body_def example_settings_def refusing_transport_def Let_def)

lemma send_ok:
  "model_name m = ''demo'' \<Longrightarrow> alert_settings m = example_settings 0 \<Longrightarrow>
   send_alert_body ok_transport m inc =
     Inr \<lparr>msg_subject = ''Security Alert: demo - '' @ severity_upper (i_severity inc) @ '' Severity'',
          msg_from = ''monitor@example.org'', msg_to = ''soc@example.org'', msg_body = inc\<rparr>"
  by (simp add: send_alert_body_def example_settings_def ok_transport_def Let_def)

lemma analyze_events:
  "ev \<in> set (snd (analyze_input_patterns inp)) \<Longrightarrow> \<exists>e. ev = LogError ''Pattern analysis error'' e"
  by (auto simp: analyze_input_patterns_def split: prod.splits option.splits)

lemma detect_threat_transport:
  "fst (detect_threat (env\<lparr>mail := tr\<rparr>) m req) = fst (detect_threat env m req)
   \<and> fst (snd (detect_threat (env\<lparr>mail := tr\<rparr>) m req)) = fst (snd (detect_threat env m req))"
  by (simp add: detect_threat_def Let_def case_prod_beta log_incident_monitor
        split: option.splits sum.splits)

lemma send_alert_failure:
  "LogError ''Failed to send alert'' e \<in> set (send_alert tr m inc) \<Longrightarrow>
     send_alert_body tr m inc = Inl e"
  by (auto simp: send_alert_def split: sum.splits)

text \<open>
  Claim C4. The value that \<open>detect_threat\<close> returns or raises and the monitor it leaves
  do not depend on the mail server; the only exceptions that leave it are the missing-key
  errors of the request and of the thresholds; and whenever the log shows that sending an
  alert failed with exception \<open>e\<close>, the call has returned an assessment, the incident is
  the last entry of the incident log, and the send that failed ran on the monitor that
  already held it.
\<close>

theorem transport_failure_isolation:
  assumes "detect_threat env m req = (r, m', evs)"
  shows "(\<forall>tr. fst (detect_threat (env\<lparr>mail := tr\<rparr>) m req) = r
              \<and> fst (snd (detect_threat (env\<lparr>mail := tr\<rparr>) m req)) = m')
       \<and> (\<forall>e. r = Inl e \<longrightarrow> e \<in> request_errors \<union> threshold_errors)
       \<and> (\<forall>e. LogError ''Failed to send alert'' e \<in> set evs \<longrightarrow>
             (\<exists>ta ip. r = Inr ta \<and> ip_address req = Some ip
                \<and> incident_log m' = incident_log m @ [incident_of ta ip]
                \<and> send_alert_body (mail env) m' (incident_of ta ip) = Inl e))"
proof (intro conjI allI impI)
  fix tr
  show "fst (detect_threat (env\<lparr>mail := tr\<rparr>) m req) = r"
    using detect_threat_transport [of tr env m req] assms by simp
  show "fst (snd (detect_threat (env\<lparr>mail := tr\<rparr>) m req)) = m'"
    using detect_threat_transport [of tr env m req] assms by simp
next
  fix e assume "r = Inl e"
  then show "e \<in> request_errors \<union> threshold_errors"
    using detect_threat_raises [of env m req e m' evs] assms by simp
next
  fix e assume ev: "LogError ''Failed to send alert'' e \<in> set evs"
  have "\<exists>ta. r = Inr ta"
  proof (cases r)
    case (Inl e')
    then show ?thesis using detect_threat_raises [of env m req e' m' evs] assms ev by simp
  qed simp
  then obtain ta where r: "r = Inr ta" ..
  obtain ip inp exceeded m1 pc evs1 where n:
    "ip_address req = Some ip" "input_data req = Some inp"
    "check_rate_limit (now_rate env) m ip = (Inr exceeded, m1)"
    "analyze_input_patterns inp = (pc, evs1)"
    using assms r by (auto elim: detect_threat_returns)
  have l: "incident_log m1 = incident_log m"
    using check_rate_limit_log [of "now_rate env" m ip] n(3) by simp
  have notin: "LogError ''Failed to send alert'' e \<notin> set evs1"
    using analyze_events [of "LogError ''Failed to send alert'' e" inp] n(4) by auto
  let ?ta = "pattern_rule pc (rate_rule exceeded (initial_assessment (now_assess env)))"
  have d: "detect_threat env m req =
      (if threats_detected ?ta \<noteq> []
       then (Inr ?ta, m1\<lparr>incident_log := incident_log m1 @ [incident_of ?ta ip]\<rparr>,
             evs1 @ snd (log_incident (mail env) m1 ?ta ip))
       else (Inr ?ta, m1, evs1))"
    using detect_threat_normal [OF n] by (simp add: Let_def)
  have nonempty: "threats_detected ?ta \<noteq> []"
    using d assms ev notin by (auto split: if_splits)
  have ta: "ta = ?ta" and m': "m' = m1\<lparr>incident_log := incident_log m1 @ [incident_of ?ta ip]\<rparr>"
    and evs: "evs = evs1 @ snd (log_incident (mail env) m1 ?ta ip)"
    using d assms r nonempty by simp_all
  have "LogError ''Failed to send alert'' e \<in> set (snd (log_incident (mail env) m1 ?ta ip))"
    using ev evs notin by simp
  then have "LogError ''Failed to send alert'' e \<in> set (send_alert (mail env) m' (incident_of ?ta ip))"
    using m' by (simp add: log_incident_events split: if_splits)
  then have "send_alert_body (mail env) m' (incident_of ta ip) = Inl e"
    using ta by (simp add: send_alert_failure)
  moreover have "incident_log m' = incident_log m @ [incident_of ta ip]"
    using m' l ta by simp
  ultimately show "\<exists>ta ip. r = Inr ta \<and> ip_address req = Some ip
                \<and> incident_log m' = incident_log m @ [incident_of ta ip]
                \<and> send_alert_body (mail env) m' (incident_of ta ip) = Inl e"
    using r n(1) by blast
qed

section \<open>Sessions: properties\<close>

lemma labelled_not_low:
  assumes "ta = pattern_rule pc (rate_rule exceeded (initial_assessment t))"
    and "threats_detected ta \<noteq> []"
  shows "severity ta \<noteq> Low"
  using assms
  by (cases exceeded; cases "suspicious_patterns pc = []")
     (simp_all add: pattern_rule_def rate_rule_def initial_assessment_def)

lemma send_alert_body_msg: "send_alert_body tr m inc = Inr msg \<Longrightarrow> msg_body msg = inc"
  by (auto simp: send_alert_body_def Let_def split: option.splits if_splits)

lemma send_alert_single: "\<exists>ev. send_alert tr m inc = [ev] \<and> alert_attempt ev inc"
  by (cases "send_alert_body tr m inc") (auto simp: send_alert_def dest: send_alert_body_msg)

lemma analyze_events_all:
  "analyze_input_patterns inp = (pc, evs1) \<Longrightarrow>
     \<forall>ev\<in>set evs1. \<exists>e. ev = LogError ''Pattern analysis error'' e"
  using analyze_events [of _ inp] by auto

text \<open>What one call adds to the incident log and to the sinks.\<close>

lemma detect_threat_step:
  assumes "detect_threat env m req = (r, m', evs)"
  shows "\<exists>pre. (\<forall>ev\<in>set pre. \<exists>e. ev = LogError ''Pattern analysis error'' e)
     \<and> ((incident_log m' = incident_log m \<and> evs = pre)
        \<or> (\<exists>inc ev. incident_log m' = incident_log m @ [inc] \<and> i_severity inc \<noteq> Low
              \<and> threats inc \<noteq> [] \<and> evs = pre @ [LogWarning inc, ev] \<and> alert_attempt ev inc))"
proof (cases r)
  case (Inl e)
  then have "evs = [] \<and> incident_log m' = incident_log m"
    using detect_threat_raises [of env m req e m' evs] assms by simp
  then show ?thesis by (intro exI [of _ "[]"]) simp
next
  case (Inr ta)
  obtain ip inp exceeded m1 pc evs1 where n:
    "ip_address req = Some ip" "input_data req = Some inp"
    "check_rate_limit (now_rate env) m ip = (Inr exceeded, m1)"
    "analyze_input_patterns inp = (pc, evs1)"
    using assms Inr by (auto elim: detect_threat_returns)
  have l: "incident_log m1 = incident_log m"
    using check_rate_limit_log [of "now_rate env" m ip] n(3) by simp
  let ?ta = "pattern_rule pc (rate_rule exceeded (initial_assessment (now_assess env)))"
  have d: "detect_threat env m req =
      (if threats_detected ?ta \<noteq> []
       then (Inr ?ta, m1\<lparr>incident_log := incident_log m1 @ [incident_of ?ta ip]\<rparr>,
             evs1 @ snd (log_incident (mail env) m1 ?ta ip))
       else (Inr ?ta, m1, evs1))"
    using detect_threat_normal [OF n] by (simp add: Let_def)
  have pre: "\<forall>ev\<in>set evs1. \<exists>e. ev = LogError ''Pattern analysis error'' e"
    using analyze_events_all [OF n(4)] .
  show ?thesis
  proof (cases "threats_detected ?ta = []")
    case True
    then have "incident_log m' = incident_log m \<and> evs = evs1"
      using d assms l by simp
    then show ?thesis using pre by blast
  next
    case False
    have sev: "severity ?ta \<noteq> Low" using labelled_not_low [OF refl False] .
    let ?inc = "incident_of ?ta ip"
    let ?m' = "m1\<lparr>incident_log := incident_log m1 @ [?inc]\<rparr>"
    obtain ev where ev: "send_alert (mail env) ?m' ?inc = [ev]" "alert_attempt ev ?inc"
      using send_alert_single by blast
    have "incident_log m' = incident_log m @ [?inc]" using d assms l False by simp
    moreover have "evs = evs1 @ [LogWarning ?inc, ev]"
      using d assms False sev ev(1) by (simp add: log_incident_events)
    moreover have "i_severity ?inc \<noteq> Low" "threats ?inc \<noteq> []"
      using sev False by (simp_all add: incident_of_def)
    ultimately show ?thesis using pre ev(2) by blast
  qed
qed

lemma alerted_skip:
  "\<forall>ev\<in>set pre. \<exists>e. ev = LogError ''Pattern analysis error'' e \<Longrightarrow>
     alerted (pre @ rest) = alerted rest"
  by (induction pre) auto

lemma alerted_pair:
  "alert_attempt ev inc \<Longrightarrow> alerted (LogWarning inc # ev # rest) = inc # alerted rest"
  by simp

lemma run_log:
  assumes "run m0 calls = (m, evs)"
  shows "\<exists>new. incident_log m = incident_log m0 @ new
           \<and> (\<forall>inc\<in>set new. i_severity inc \<noteq> Low \<and> threats inc \<noteq> [])
           \<and> alerted evs = new"
  using assms
proof (induction calls arbitrary: m0 m evs)
  case Nil
  then show ?case by simp
next
  case (Cons c cs)
  obtain r m1 evs1 where d: "detect_threat (fst c) m0 (snd c) = (r, m1, evs1)"
    by (cases "detect_threat (fst c) m0 (snd c)")
  obtain m2 evs2 where rr: "run m1 cs = (m2, evs2)" by (cases "run m1 cs")
  have fin: "m = m2" "evs = evs1 @ evs2" using Cons.prems d rr by simp_all
  obtain new where new: "incident_log m2 = incident_log m1 @ new"
      "\<forall>inc\<in>set new. i_severity inc \<noteq> Low \<and> threats inc \<noteq> []" "alerted evs2 = new"
    using Cons.IH [OF rr] by blast
  obtain pre where pre: "\<forall>ev\<in>set pre. \<exists>e. ev = LogError ''Pattern analysis error'' e"
    and alt: "(incident_log m1 = incident_log m0 \<and> evs1 = pre)
        \<or> (\<exists>inc ev. incident_log m1 = incident_log m0 @ [inc] \<and> i_severity inc \<noteq> Low
              \<and> threats inc \<noteq> [] \<and> evs1 = pre @ [LogWarning inc, ev] \<and> alert_attempt ev inc)"
    using detect_threat_step [OF d] by blast
  from alt show ?case
  proof
    assume a: "incident_log m1 = incident_log m0 \<and> evs1 = pre"
    then have "alerted evs = new" using fin new(3) alerted_skip [OF pre] by simp
    then show ?thesis using a fin new by auto
  next
    assume "\<exists>inc ev. incident_log m1 = incident_log m0 @ [inc] \<and> i_severity inc \<noteq> Low
              \<and> threats inc \<noteq> [] \<and> evs1 = pre @ [LogWarning inc, ev] \<and> alert_attempt ev inc"
    then obtain inc ev where a: "incident_log m1 = incident_log m0 @ [inc]" "i_severity inc \<noteq> Low"
      "threats inc \<noteq> []" "evs1 = pre @ [LogWarning inc, ev]" "alert_attempt ev inc"
      by blast
    have "alerted evs = inc # new"
      using fin a(4) new(3) alerted_skip [OF pre, of "LogWarning inc # ev # evs2"]
        alerted_pair [OF a(5), of evs2] by simp
    then show ?thesis using a fin new
      by (intro exI [of _ "inc # new"]) auto
  qed
qed


lemma init_monitor:
  "init basicConfig today name settings logging_path = Inr m0 \<Longrightarrow>
     m0 = \<lparr>model_name = name, alert_settings = settings,
           incident_log = [], request_history = Map.empty\<rparr>"
  by (auto simp: init_def Let_def split: option.splits if_splits)

lemma low_bucket:
  assumes "\<forall>inc\<in>set (incident_log m). i_severity inc \<noteq> Low"
  shows "map_of (by_severity (fst (get_incident_summary now m hours))) Low = Some 0"
proof -
  have "filter (\<lambda>i. i_severity i = Low) (filter (\<lambda>i. now - hours * hour < i_timestamp i) (incident_log m)) = []"
    using assms by (auto simp: filter_empty_conv)
  then show ?thesis by (simp add: get_incident_summary_def Let_def)
qed

lemma severity_cases: "s \<noteq> Low \<Longrightarrow> s \<in> {Medium, High}"
  by (cases s) simp_all

text \<open>
  Claim C9. In every session of a monitor that \<open>__init__\<close> has built, whatever the calls
  and their outcomes, every incident in the incident log has severity medium or high; so
  the \<open>low\<close> entry of \<open>by_severity\<close> is 0 in every summary; and the incidents for which
  the sinks hold the warning followed by the record of a send (the message, or the logged
  failure) are exactly the incidents of the log, in order.
\<close>

theorem recorded_incidents_not_low:
  assumes "init basicConfig today name settings logging_path = Inr m0"
    and "run m0 calls = (m, evs)"
  shows "(\<forall>inc\<in>set (incident_log m). i_severity inc \<in> {Medium, High})
       \<and> (\<forall>now hours. map_of (by_severity (fst (get_incident_summary now m hours))) Low = Some 0)
       \<and> alerted evs = incident_log m"
proof -
  have e: "incident_log m0 = []" using init_monitor [OF assms(1)] by simp
  obtain new where new: "incident_log m = incident_log m0 @ new"
      "\<forall>inc\<in>set new. i_severity inc \<noteq> Low \<and> threats inc \<noteq> []" "alerted evs = new"
    using run_log [OF assms(2)] by blast
  have nl: "\<forall>inc\<in>set (incident_log m). i_severity inc \<noteq> Low" using new e by simp
  then have "\<forall>inc\<in>set (incident_log m). i_severity inc \<in> {Medium, High}"
    using severity_cases by blast
  moreover have "\<forall>now hours. map_of (by_severity (fst (get_incident_summary now m hours))) Low = Some 0"
    using low_bucket [OF nl] by blast
  moreover have "alerted evs = incident_log m" using new e by simp
  ultimately show ?thesis by blast
qed

lemma init_example:
  "init (\<lambda>filename. None) ''20240101'' ''demo'' (example_settings T) None = Inr (example_monitor T)"
  by (simp add: init_def example_monitor_def)

lemma run_two:
  "run (example_monitor 0)
     [(example_env ok_transport, request_with (int_list [1, 2, 3])),
      (example_env ok_transport, request_with (int_list [1, 2, 3]))] =
     (busy_monitor\<lparr>request_history := [''10.0.0.1'' \<mapsto> [100000007, 100000007]],
                   incident_log := [incident_of rate_assessment ''10.0.0.1'']\<rparr>,
      [LogWarning (incident_of rate_assessment ''10.0.0.1''),
       EmailSent \<lparr>msg_subject = ''Security Alert: demo - MEDIUM Severity'',
                  msg_from = ''monitor@example.org'', msg_to = ''soc@example.org'',
                  msg_body = incident_of rate_assessment ''10.0.0.1''\<rparr>])"
proof -
  have 1: "detect_threat (example_env ok_transport) (example_monitor 0) (request_with (int_list [1, 2, 3])) =
     (Inr (initial_assessment 100000000), busy_monitor, [])"
    using detect_clean [of 0 ok_transport] by (simp add: busy_monitor_def)
  let ?m' = "busy_monitor\<lparr>request_history := [''10.0.0.1'' \<mapsto> [100000007, 100000007]],
                   incident_log := [incident_of rate_assessment ''10.0.0.1'']\<rparr>"
  have s: "send_alert ok_transport ?m' (incident_of rate_assessment ''10.0.0.1'') =
     [EmailSent \<lparr>msg_subject = ''Security Alert: demo - MEDIUM Severity'',
                  msg_from = ''monitor@example.org'', msg_to = ''soc@example.org'',
                  msg_body = incident_of rate_assessment ''10.0.0.1''\<rparr>]"
    by (simp add: send_alert_def send_ok busy_monitor_def example_monitor_def incident_of_def
          rate_assessment_def)
  show ?thesis
    by (simp add: 1 detect_busy [of ok_transport] s)
qed

text \<open>
  Two requests of one source at threshold 0: the second is recorded with severity medium
  and its alert is sent.
\<close>

theorem recorded_incidents_not_low_witness:
  "init (\<lambda>filename. None) ''20240101'' ''demo'' (example_settings 0) None = Inr (example_monitor 0)
   \<and> run (example_monitor 0)
     [(example_env ok_transport, request_with (int_list [1, 2, 3])),
      (example_env ok_transport, request_with (int_list [1, 2, 3]))] =
     (busy_monitor\<lparr>request_history := [''10.0.0.1'' \<mapsto> [100000007, 100000007]],
                   incident_log := [incident_of rate_assessment ''10.0.0.1'']\<rparr>,
      [LogWarning (incident_of rate_assessment ''10.0.0.1''),
       EmailSent \<lparr>msg_subject = ''Security Alert: demo - MEDIUM Severity'',
                  msg_from = ''monitor@example.org'', msg_to = ''soc@example.org'',
                  msg_body = incident_of rate_assessment ''10.0.0.1''\<rparr>])
   \<and> i_severity (incident_of rate_assessment ''10.0.0.1'') \<in> {Medium, High}
   \<and> alerted [LogWarning (incident_of rate_assessment ''10.0.0.1''),
       EmailSent \<lparr>msg_subject = ''Security Alert: demo - MEDIUM Severity'',
                  msg_from = ''monitor@example.org'', msg_to = ''soc@example.org'',
                  msg_body = incident_of rate_assessment ''10.0.0.1''\<rparr>]
       = [incident_of rate_assessment ''10.0.0.1'']"
  using recorded_incidents_not_low [OF init_example [of 0] run_two] init_example [of 0] run_two
  by simp


lemma detect_threat_settings:
  "alert_settings (fst (snd (detect_threat env m req))) = alert_settings m"
proof (cases "ip_address req")
  case None
  then show ?thesis by (simp add: detect_threat_def)
next
  case (Some ip)
  have "alert_settings (snd (check_rate_limit (now_rate env) m ip)) = alert_settings m"
    by (rule check_rate_limit_settings)
  then show ?thesis using Some
    by (simp add: detect_threat_def Let_def case_prod_beta log_incident_monitor
          split: option.splits sum.splits)
qed

lemma run_settings: "alert_settings (fst (run m calls)) = alert_settings m"
proof (induction calls arbitrary: m)
  case Nil
  then show ?case by simp
next
  case (Cons c cs)
  have "alert_settings (fst (run (fst (snd (detect_threat (fst c) m (snd c)))) cs)) = alert_settings m"
    using Cons.IH [of "fst (snd (detect_threat (fst c) m (snd c)))"] detect_threat_settings by simp
  then show ?case by (simp add: case_prod_beta)
qed

lemma check_with_threshold:
  "has_threshold (alert_settings m) \<Longrightarrow> \<exists>b. fst (check_rate_limit t m ip) = Inr b"
  by (auto simp: has_threshold_def check_rate_limit_def Let_def split: option.splits)

lemma check_without_threshold:
  "\<not> has_threshold (alert_settings m) \<Longrightarrow> \<exists>e\<in>threshold_errors. fst (check_rate_limit t m ip) = Inl e"
  by (auto simp: has_threshold_def check_rate_limit_def threshold_errors_def Let_def
      split: option.splits)

lemma detect_with_threshold:
  assumes "has_threshold (alert_settings m)" and "fst (detect_threat env m req) = Inl e"
  shows "e \<in> request_errors"
proof (cases "ip_address req")
  case None
  then show ?thesis using assms(2) by (simp add: detect_threat_def request_errors_def)
next
  case (Some ip)
  obtain b where "fst (check_rate_limit (now_rate env) m ip) = Inr b"
    using check_with_threshold [OF assms(1)] by blast
  then obtain m1 where c: "check_rate_limit (now_rate env) m ip = (Inr b, m1)"
    by (cases "check_rate_limit (now_rate env) m ip") simp
  show ?thesis
  proof (cases "input_data req")
    case None
    then show ?thesis using assms(2) Some c
      by (simp add: detect_threat_def Let_def request_errors_def)
  next
    case (Some inp)
    then show ?thesis using assms(2) \<open>ip_address req = Some ip\<close> c
      by (simp add: detect_threat_def Let_def case_prod_beta split: if_splits)
  qed
qed

lemma detect_without_threshold:
  assumes "\<not> has_threshold (alert_settings m)" and "ip_address req = Some ip"
  shows "\<exists>e\<in>threshold_errors.
           detect_threat env m req = (Inl e, snd (check_rate_limit (now_rate env) m ip), [])"
proof -
  obtain e where e: "e \<in> threshold_errors" "fst (check_rate_limit (now_rate env) m ip) = Inl e"
    using check_without_threshold [OF assms(1)] by blast
  then obtain m1 where c: "check_rate_limit (now_rate env) m ip = (Inl e, m1)"
    by (cases "check_rate_limit (now_rate env) m ip") simp
  have "detect_threat env m req = (Inl e, m1, [])"
    using assms(2) c by (simp add: detect_threat_def)
  then show ?thesis using e(1) c by auto
qed

lemma errors_disjoint: "e \<in> request_errors \<Longrightarrow> e \<notin> threshold_errors"
  by (auto simp: request_errors_def threshold_errors_def)

text \<open>
  Claim C5, as the code has it. \<open>__init__\<close> does not look at the alert settings: where it
  succeeds for some settings it succeeds for all. The thresholds are read by the rate
  check of each call. A monitor built with \<open>alert_thresholds\<close> and
  \<open>max_requests_per_minute\<close> never raises a missing-threshold error from
  \<open>detect_threat\<close>, in any session. A monitor built without one of them is constructed
  all the same, and then every call that names a source raises the \<open>KeyError\<close> of the
  missing key, after the rate check has pruned the source's history and recorded the
  request in it.
\<close>

theorem settings_read_at_call_time:
  assumes "init basicConfig today name settings logging_path = Inr m0"
    and "run m0 calls = (m, evs)"
  shows "(\<forall>settings'. \<exists>m0'. init basicConfig today name settings' logging_path = Inr m0')
       \<and> (has_threshold settings \<longrightarrow>
            (\<forall>env req e. fst (detect_threat env m req) = Inl e \<longrightarrow> e \<notin> threshold_errors))
       \<and> (\<not> has_threshold settings \<longrightarrow>
            (\<forall>env req ip. ip_address req = Some ip \<longrightarrow>
               (\<exists>e\<in>threshold_errors.
                  detect_threat env m req = (Inl e, snd (check_rate_limit (now_rate env) m ip), []))
               \<and> history_of (snd (check_rate_limit (now_rate env) m ip)) ip =
                   filter (\<lambda>ts. now_rate env - ts < minute) (history_of m ip) @ [now_rate env]))"
proof -
  have s: "alert_settings m = settings"
    using run_settings [of m0 calls] assms(2) init_monitor [OF assms(1)] by simp
  have 1: "\<forall>settings'. \<exists>m0'. init basicConfig today name settings' logging_path = Inr m0'"
    using assms(1) by (auto simp: init_def Let_def split: option.splits if_splits)
  have 2: "has_threshold settings \<longrightarrow>
            (\<forall>env req e. fst (detect_threat env m req) = Inl e \<longrightarrow> e \<notin> threshold_errors)"
    using detect_with_threshold [of m] errors_disjoint s by blast
  have 3: "\<not> has_threshold settings \<longrightarrow>
            (\<forall>env req ip. ip_address req = Some ip \<longrightarrow>
               (\<exists>e\<in>threshold_errors.
                  detect_threat env m req = (Inl e, snd (check_rate_limit (now_rate env) m ip), []))
               \<and> history_of (snd (check_rate_limit (now_rate env) m ip)) ip =
                   filter (\<lambda>ts. now_rate env - ts < minute) (history_of m ip) @ [now_rate env])"
    using detect_without_threshold [of m] s by (simp add: check_rate_limit_history)
  show ?thesis using 1 2 3 by blast
qed

text \<open>
  Against C5 as worded: settings without \<open>alert_thresholds\<close> construct a monitor, and
  the first \<open>detect_threat\<close> on it raises \<open>KeyError\<close>.
\<close>

theorem construction_without_thresholds_counterexample:
  "alert_thresholds unconfigured = None
   \<and> init (\<lambda>filename. None) ''20240101'' ''demo'' unconfigured None = Inr unconfigured_monitor
   \<and> fst (detect_threat (example_env ok_transport) unconfigured_monitor
            (request_with (int_list [1, 2, 3]))) = Inl (KeyError ''alert_thresholds'')"
  by (simp add: init_def unconfigured_monitor_def unconfigured_def detect_threat_def
        check_rate_limit_def request_with_def Let_def)

section \<open>Pattern analysis: properties\<close>






text \<open>
  On a numeric array with at least one element the division succeeds, and the labels are
  the extreme-value label, the sparsity label and whatever the gradient check adds.
\<close>

lemma analyze_body_numeric:
  assumes "np_asarray inp = Inr a" and "as_ints (items a) = Some xs" and "0 < arr_size a"
  shows "\<exists>tail err.
     analyze_body inp =
       ((if list_ex (\<lambda>v. v > 1000000) (map abs xs) then [''extreme_values''] else [])
        @ (if 100 * count_nonzero a < arr_size a then [''suspicious_sparsity''] else [])
        @ tail, err)
     \<and> (tail = [] \<or> tail = [''potential_adversarial_pattern''] \<and> err = None)"
proof -
  have lt: "(of_nat (count_nonzero a) / of_nat (arr_size a) < (1 / 100 :: rat))
              = (100 * count_nonzero a < arr_size a)"
  proof -
    have "(of_nat (count_nonzero a) / of_nat (arr_size a) < (1 / 100 :: rat))
            = ((of_nat (100 * count_nonzero a) :: rat) < of_nat (arr_size a))"
      using assms(3) by (simp add: field_simps)
    also have "\<dots> = (100 * count_nonzero a < arr_size a)" by (rule of_nat_less_iff)
    finally show ?thesis .
  qed
  show ?thesis
    using assms
    by (auto simp: analyze_body_def np_abs_def true_divide_def lt astype_float_def Let_def
        simp del: of_nat_mult split: sum.splits)
qed


lemma analyze_patterns_labels:
  "suspicious_patterns (fst (analyze_input_patterns inp)) =
     (case analyze_body inp of
        (labels, None) \<Rightarrow> labels
      | (labels, Some e) \<Rightarrow> labels @ [''analysis_error''])"
  by (simp add: analyze_input_patterns_def split: prod.splits option.splits)

text \<open>
  Claim C7, as the code has it. On a numeric array with at least one element the
  analysis yields \<open>suspicious_sparsity\<close> exactly when the fraction of non-zero elements
  is strictly below \<open>1/100\<close>, that is when \<open>100 * count_nonzero < size\<close>. For an array
  of 100 elements this is the case exactly when no element is non-zero: one non-zero
  element gives the fraction \<open>0.01\<close>, which is not below the bound.
\<close>

theorem sparsity_boundary:
  assumes "np_asarray inp = Inr a" and "as_ints (items a) = Some xs" and "0 < arr_size a"
  shows "((''suspicious_sparsity'' \<in> set (suspicious_patterns (fst (analyze_input_patterns inp))))
            = (100 * count_nonzero a < arr_size a))
       \<and> (arr_size a = 100 \<longrightarrow>
            ((''suspicious_sparsity'' \<in> set (suspicious_patterns (fst (analyze_input_patterns inp))))
               = (count_nonzero a = 0)))"
proof -
  obtain tail err where b: "analyze_body inp =
       ((if list_ex (\<lambda>v. v > 1000000) (map abs xs) then [''extreme_values''] else [])
        @ (if 100 * count_nonzero a < arr_size a then [''suspicious_sparsity''] else [])
        @ tail, err)"
    and t: "tail = [] \<or> tail = [''potential_adversarial_pattern''] \<and> err = None"
    using analyze_body_numeric [OF assms] by blast
  have main: "(''suspicious_sparsity'' \<in> set (suspicious_patterns (fst (analyze_input_patterns inp))))
            = (100 * count_nonzero a < arr_size a)"
    using t by (cases err) (auto simp: analyze_patterns_labels b)
  moreover have "arr_size a = 100 \<Longrightarrow> (100 * count_nonzero a < arr_size a) = (count_nonzero a = 0)"
    by auto
  ultimately show ?thesis by simp
qed

text \<open>A one-dimensional array of numbers, given as a list.\<close>

lemma discover_shape_int_list: "discover_shape (int_list xs) = Some [length xs]"
proof (cases xs)
  case Nil
  then show ?thesis by (simp add: int_list_def)
next
  case (Cons x xs')
  then show ?thesis by (simp add: int_list_def list_all_iff)
qed

lemma flatten_int_list: "flatten (int_list xs) = map PyInt xs"
  by (induction xs) (simp_all add: int_list_def)

lemma as_ints_map: "as_ints (map PyInt xs) = Some xs"
  by (induction xs) simp_all

lemma np_asarray_int_list:
  "np_asarray (int_list xs) = Inr \<lparr>shape = [length xs], items = map PyInt xs\<rparr>"
  by (simp add: np_asarray_def discover_shape_int_list flatten_int_list)

lemma count_nonzero_ints:
  "count_nonzero \<lparr>shape = shp, items = map PyInt xs\<rparr> = length (filter (\<lambda>x. x \<noteq> 0) xs)"
  by (simp add: count_nonzero_def filter_map comp_def)

text \<open>A hundred zeros: the label is present.\<close>

theorem sparsity_boundary_witness:
  "np_asarray (int_list (replicate 100 0)) = Inr \<lparr>shape = [100], items = map PyInt (replicate 100 0)\<rparr>
   \<and> as_ints (items \<lparr>shape = [100], items = map PyInt (replicate 100 0)\<rparr>) = Some (replicate 100 0)
   \<and> 0 < arr_size \<lparr>shape = [100], items = map PyInt (replicate 100 0)\<rparr>
   \<and> count_nonzero \<lparr>shape = [100], items = map PyInt (replicate 100 0)\<rparr> = 0
   \<and> ''suspicious_sparsity'' \<in> set (suspicious_patterns (fst (analyze_input_patterns (int_list (replicate 100 0)))))"
proof -
  let ?a = "\<lparr>shape = [100], items = map PyInt (replicate 100 0)\<rparr>"
  have a: "np_asarray (int_list (replicate 100 0)) = Inr ?a"
    using np_asarray_int_list [of "replicate 100 0"] by simp
  have b: "as_ints (items ?a) = Some (replicate 100 0)"
    using as_ints_map [of "replicate 100 0"] by simp
  have c: "0 < arr_size ?a" by (simp add: arr_size_def)
  have d: "count_nonzero ?a = 0"
    using count_nonzero_ints [of "[100]" "replicate 100 0"] by simp
  have "''suspicious_sparsity'' \<in> set (suspicious_patterns (fst (analyze_input_patterns (int_list (replicate 100 0)))))"
    using sparsity_boundary [OF a b c] d by (simp add: arr_size_def)
  then show ?thesis using a b c d by blast
qed

text \<open>
  Against the first sentence of C7 as worded: a one followed by 99 zeros is a
  100-element array with exactly one non-zero element, and the analysis returns no label.
\<close>

theorem sparsity_one_in_hundred_counterexample:
  "np_asarray (int_list (1 # replicate 99 0)) =
     Inr \<lparr>shape = [100], items = map PyInt (1 # replicate 99 0)\<rparr>
   \<and> count_nonzero \<lparr>shape = [100], items = map PyInt (1 # replicate 99 0)\<rparr> = 1
   \<and> suspicious_patterns (fst (analyze_input_patterns (int_list (1 # replicate 99 0)))) = []"
proof -
  let ?a = "\<lparr>shape = [100], items = map PyInt (1 # replicate 99 0)\<rparr>"
  have a: "np_asarray (int_list (1 # replicate 99 0)) = Inr ?a"
    using np_asarray_int_list [of "1 # replicate 99 0"] by simp
  have d: "count_nonzero ?a = 1"
    using count_nonzero_ints [of "[100]" "1 # replicate 99 0"] by simp
  have i: "as_ints (items ?a) = Some (1 # replicate 99 0)"
    using as_ints_map [of "1 # replicate 99 0"] by simp
  have "analyze_body (int_list (1 # replicate 99 0)) = ([], None)"
    using a d i
    by (simp add: analyze_body_def np_abs_def true_divide_def arr_size_def list_ex_iff)
  then have "suspicious_patterns (fst (analyze_input_patterns (int_list (1 # replicate 99 0)))) = []"
    by (simp add: analyze_patterns_labels)
  then show ?thesis using a d by blast
qed


lemma gradient_axes_error: "gradient_axes shp f axes = Inl e \<Longrightarrow> e = ValueError"
  by (induction axes arbitrary: e) (auto split: if_splits sum.splits)

lemma analyze_body_failure:
  assumes "analyze_body inp = (labels, Some e)"
  shows "set labels \<subseteq> {''extreme_values'', ''suspicious_sparsity''}
       \<and> (coercion_fails inp \<longrightarrow> labels = [])
       \<and> e \<in> analysis_errors"
  using assms
  by (auto simp: analyze_body_def coercion_fails_def analysis_errors_def np_asarray_def np_abs_def
        true_divide_def astype_float_def np_gradient_def Let_def
      dest: gradient_axes_error split: sum.splits option.splits if_splits)

lemma analysis_not_raised:
  assumes "e \<in> analysis_errors"
  shows "fst (detect_threat env m req) \<noteq> Inl e"
proof
  assume "fst (detect_threat env m req) = Inl e"
  then have "detect_threat env m req =
      (Inl e, fst (snd (detect_threat env m req)), snd (snd (detect_threat env m req)))"
    by (rule triple_eq)
  then have "e \<in> request_errors \<union> threshold_errors"
    using detect_threat_raises by blast
  then show False using assms
    by (auto simp: request_errors_def threshold_errors_def analysis_errors_def)
qed

text \<open>
  Claim C6, as the code has it. When a statement of the \<open>try\<close> block raises, the
  exception is caught and logged, and \<open>analysis_error\<close> is appended after the labels that
  the block had appended before: these can only be \<open>extreme_values\<close> and
  \<open>suspicious_sparsity\<close>. When the input cannot be coerced into a uniform numeric array
  there are none, and \<open>analysis_error\<close> is the single label. The exception is one of the
  array operations' and never the one that leaves \<open>detect_threat\<close>.
\<close>

theorem analysis_failure_caught:
  assumes "analyze_body inp = (labels, Some e)"
  shows "analyze_input_patterns inp =
           (\<lparr>suspicious_patterns = labels @ [''analysis_error''], analysis_details = []\<rparr>,
            [LogError ''Pattern analysis error'' e])
       \<and> set labels \<subseteq> {''extreme_values'', ''suspicious_sparsity''}
       \<and> (coercion_fails inp \<longrightarrow> labels = [])
       \<and> e \<in> analysis_errors
       \<and> (\<forall>env m req. fst (detect_threat env m req) \<noteq> Inl e)"
proof -
  have "analyze_input_patterns inp =
           (\<lparr>suspicious_patterns = labels @ [''analysis_error''], analysis_details = []\<rparr>,
            [LogError ''Pattern analysis error'' e])"
    using assms by (simp add: analyze_input_patterns_def)
  moreover have "\<forall>env m req. fst (detect_threat env m req) \<noteq> Inl e"
    using analysis_not_raised analyze_body_failure [OF assms] by blast
  ultimately show ?thesis using analyze_body_failure [OF assms] by blast
qed

lemma analyze_body_ragged: "analyze_body ragged = ([], Some ValueError)"
  by (simp add: analyze_body_def ragged_def np_asarray_def int_list_def)

text \<open>A ragged list: the coercion fails and \<open>analysis_error\<close> stands alone.\<close>

theorem analysis_failure_caught_witness:
  "analyze_body ragged = ([], Some ValueError)
   \<and> coercion_fails ragged
   \<and> analyze_input_patterns ragged =
       (\<lparr>suspicious_patterns = [''analysis_error''], analysis_details = []\<rparr>,
        [LogError ''Pattern analysis error'' ValueError])
   \<and> fst (detect_threat (example_env ok_transport) (example_monitor 5) (request_with ragged))
        \<noteq> Inl ValueError"
proof -
  have c: "coercion_fails ragged"
    by (simp add: coercion_fails_def ragged_def np_asarray_def int_list_def)
  from analysis_failure_caught [OF analyze_body_ragged] c show ?thesis
    using analyze_body_ragged by simp
qed

text \<open>
  Against C6 as worded ("the single label"): the input \<open>[[2000000, 0, 0]]\<close> has shape
  \<open>(1, 3)\<close>; the extreme-value check appends its label, then \<open>np.gradient\<close> raises on the
  axis of length 1, and \<open>analysis_error\<close> is appended to the label already there.
\<close>

theorem analysis_error_after_label_counterexample:
  "np_asarray wide_row = Inr \<lparr>shape = [1, 3], items = [PyInt 2000000, PyInt 0, PyInt 0]\<rparr>
   \<and> suspicious_patterns (fst (analyze_input_patterns wide_row)) =
       [''extreme_values'', ''analysis_error'']"
  by (simp add: analyze_input_patterns_def analyze_body_def wide_row_def np_asarray_def np_abs_def
        true_divide_def count_nonzero_def arr_size_def astype_float_def np_gradient_def
        int_list_def upt_rec)





section \<open>Incident summary: properties\<close>

























section \<open>The rate label of an assessment\<close>

lemma analyze_body_labels:
  "set (fst (analyze_body inp)) \<subseteq>
     {''extreme_values'', ''suspicious_sparsity'', ''potential_adversarial_pattern''}"
  by (auto simp: analyze_body_def Let_def split: sum.splits if_splits)

lemma pattern_labels:
  "''rate_limit_exceeded'' \<notin> set (suspicious_patterns (fst (analyze_input_patterns inp)))"
proof -
  have "''rate_limit_exceeded'' \<notin> set (fst (analyze_body inp))"
    using analyze_body_labels [of inp] by auto
  then show ?thesis
    by (cases "analyze_body inp") (auto simp: analyze_patterns_labels split: option.splits)
qed

text \<open>
  In a call that returns, the label \<open>rate_limit_exceeded\<close> is present exactly when the
  rate check returned true, and the history the call leaves is the one the rate check
  wrote.
\<close>

lemma rate_label_iff:
  assumes "detect_threat env m req = (Inr ta, m', evs)" and "ip_address req = Some ip"
  shows "(''rate_limit_exceeded'' \<in> set (threats_detected ta)) =
           (fst (check_rate_limit (now_rate env) m ip) = Inr True)
       \<and> request_history m' = request_history (snd (check_rate_limit (now_rate env) m ip))"
proof -
  obtain ip' inp exceeded m1 pc evs1 where n:
    "ip_address req = Some ip'" "input_data req = Some inp"
    "check_rate_limit (now_rate env) m ip' = (Inr exceeded, m1)"
    "analyze_input_patterns inp = (pc, evs1)"
    using assms(1) by (rule detect_threat_returns)
  have eq: "ip' = ip" using n(1) assms(2) by simp
  have p: "''rate_limit_exceeded'' \<notin> set (suspicious_patterns pc)"
    using pattern_labels [of inp] n(4) by simp
  let ?ta = "pattern_rule pc (rate_rule exceeded (initial_assessment (now_assess env)))"
  have t: "(''rate_limit_exceeded'' \<in> set (threats_detected ?ta)) = exceeded"
    using p by (simp add: pattern_rule_def rate_rule_def initial_assessment_def)
  have "ta = ?ta" and "request_history m' = request_history m1"
    using detect_threat_normal [OF n] assms(1) by (auto simp: Let_def split: if_splits)
  then show ?thesis using t n(3) eq by simp
qed

section \<open>The properties on the example calls\<close>

lemma detect_extreme:
  "detect_threat (example_env tr) (example_monitor 5) (request_with (int_list [2000000, 1])) =
     (Inr extreme_assessment,
      (example_monitor 5)\<lparr>request_history := [''10.0.0.1'' \<mapsto> [100000007]],
                           incident_log := [incident_of extreme_assessment ''10.0.0.1'']\<rparr>,
      LogWarning (incident_of extreme_assessment ''10.0.0.1'') #
        send_alert tr
          ((example_monitor 5)\<lparr>request_history := [''10.0.0.1'' \<mapsto> [100000007]],
                           incident_log := [incident_of extreme_assessment ''10.0.0.1'']\<rparr>)
          (incident_of extreme_assessment ''10.0.0.1''))"
proof -
  have a: "ip_address (request_with (int_list [2000000, 1])) = Some ''10.0.0.1''"
    and b: "input_data (request_with (int_list [2000000, 1])) = Some (int_list [2000000, 1])"
    by (simp_all add: request_with_def)
  have c: "check_rate_limit (now_rate (example_env tr)) (example_monitor 5) ''10.0.0.1'' =
     (Inr False, (example_monitor 5)\<lparr>request_history := [''10.0.0.1'' \<mapsto> [100000007]]\<rparr>)"
    using check_fresh [of 5] by (simp add: example_env_def)
  have t: "pattern_rule \<lparr>suspicious_patterns = [''extreme_values''], analysis_details = []\<rparr>
             (rate_rule False (initial_assessment 100000000)) = extreme_assessment"
    by (simp add: pattern_rule_def rate_rule_def initial_assessment_def extreme_assessment_def)
  have l: "incident_log (example_monitor 5) = []" by (simp add: example_monitor_def)
  have s: "severity extreme_assessment = High" by (simp add: extreme_assessment_def)
  have n: "threats_detected extreme_assessment \<noteq> []" by (simp add: extreme_assessment_def)
  show ?thesis
    by (subst detect_threat_normal [OF a b c analyze_extreme_list])
       (simp add: Let_def t l s n log_incident_events example_env_def)
qed

lemma detect_unconfigured:
  "detect_threat (example_env tr) unconfigured_monitor (request_with v) =
     (Inl (KeyError ''alert_thresholds''),
      unconfigured_monitor\<lparr>request_history := [''10.0.0.1'' \<mapsto> [100000007]]\<rparr>, [])"
  by (simp add: detect_threat_def check_rate_limit_def history_of_def unconfigured_monitor_def
        unconfigured_def request_with_def example_env_def Let_def)

lemma detect_no_input:
  "detect_threat (example_env tr) (example_monitor 3) no_input_request =
     (Inl (KeyError ''input_data''),
      (example_monitor 3)\<lparr>request_history := [''10.0.0.1'' \<mapsto> [100000007]]\<rparr>, [])"
  using check_fresh [of 3]
  by (simp add: detect_threat_def no_input_request_def example_env_def Let_def)

text \<open>
  C2 on three calls: a harmless input on the busy monitor (only the rate rule fires), an
  extreme value on a fresh monitor (only the pattern rule fires), and a harmless input on
  a fresh monitor (neither fires).
\<close>

theorem severity_combination_witness:
  "detect_threat (example_env ok_transport) busy_monitor (request_with (int_list [1, 2, 3])) =
     (Inr rate_assessment,
      fst (snd (detect_threat (example_env ok_transport) busy_monitor (request_with (int_list [1, 2, 3])))),
      snd (snd (detect_threat (example_env ok_transport) busy_monitor (request_with (int_list [1, 2, 3])))))
   \<and> fst (check_rate_limit (now_rate (example_env ok_transport)) busy_monitor ''10.0.0.1'') = Inr True
   \<and> suspicious_patterns (fst (analyze_input_patterns (int_list [1, 2, 3]))) = []
   \<and> severity rate_assessment = Medium
   \<and> map_of (details rate_assessment) ''patterns'' = None
   \<and> detect_threat (example_env ok_transport) (example_monitor 5) (request_with (int_list [2000000, 1])) =
     (Inr extreme_assessment,
      fst (snd (detect_threat (example_env ok_transport) (example_monitor 5)
                  (request_with (int_list [2000000, 1])))),
      snd (snd (detect_threat (example_env ok_transport) (example_monitor 5)
                  (request_with (int_list [2000000, 1])))))
   \<and> suspicious_patterns (fst (analyze_input_patterns (int_list [2000000, 1]))) \<noteq> []
   \<and> severity extreme_assessment = High
   \<and> map_of (details extreme_assessment) ''patterns'' =
        Some (fst (analyze_input_patterns (int_list [2000000, 1])))
   \<and> detect_threat (example_env ok_transport) (example_monitor 5) (request_with (int_list [1, 2, 3])) =
     (Inr (initial_assessment 100000000),
      (example_monitor 5)\<lparr>request_history := [''10.0.0.1'' \<mapsto> [100000007]]\<rparr>, [])
   \<and> fst (check_rate_limit (now_rate (example_env ok_transport)) (example_monitor 5) ''10.0.0.1'') = Inr False
   \<and> severity (initial_assessment 100000000) = Low"
proof -
  let ?env = "example_env ok_transport"
  let ?small = "request_with (int_list [1, 2, 3])" and ?big = "request_with (int_list [2000000, 1])"
  have ip: "\<And>v. ip_address (request_with v) = Some ''10.0.0.1''"
    and inp: "\<And>v. input_data (request_with v) = Some v"
    by (simp_all add: request_with_def)
  have ps: "suspicious_patterns (fst (analyze_input_patterns (int_list [1, 2, 3]))) = []"
    by (simp add: analyze_small_list)
  have pb: "suspicious_patterns (fst (analyze_input_patterns (int_list [2000000, 1]))) \<noteq> []"
    by (simp add: analyze_extreme_list)
  have cb: "fst (check_rate_limit (now_rate ?env) busy_monitor ''10.0.0.1'') = Inr True"
    using check_busy by (simp add: example_env_def)
  have cf: "fst (check_rate_limit (now_rate ?env) (example_monitor 5) ''10.0.0.1'') = Inr False"
    using check_fresh [of 5] by (simp add: example_env_def)
  have h1: "detect_threat ?env busy_monitor ?small =
     (Inr rate_assessment, fst (snd (detect_threat ?env busy_monitor ?small)),
      snd (snd (detect_threat ?env busy_monitor ?small)))"
    by (rule triple_eq) (simp add: detect_busy)
  have h2: "detect_threat ?env (example_monitor 5) ?big =
     (Inr extreme_assessment, fst (snd (detect_threat ?env (example_monitor 5) ?big)),
      snd (snd (detect_threat ?env (example_monitor 5) ?big)))"
    by (rule triple_eq) (simp add: detect_extreme)
  have h3: "detect_threat ?env (example_monitor 5) ?small =
     (Inr (initial_assessment 100000000),
      (example_monitor 5)\<lparr>request_history := [''10.0.0.1'' \<mapsto> [100000007]]\<rparr>, [])"
    by (rule detect_clean) simp
  have r1: "severity rate_assessment = Medium \<and> map_of (details rate_assessment) ''patterns'' = None"
    using severity_combination [OF h1 ip inp] cb ps by (auto simp: Let_def)
  have r2: "severity extreme_assessment = High
      \<and> map_of (details extreme_assessment) ''patterns'' =
           Some (fst (analyze_input_patterns (int_list [2000000, 1])))"
    using severity_combination [OF h2 ip inp] pb by (auto simp: Let_def)
  have r3: "severity (initial_assessment 100000000) = Low"
    using severity_combination [OF h3 ip inp] cf ps by (auto simp: Let_def)
  show ?thesis using h1 h2 h3 cb cf ps pb r1 r2 r3 by blast
qed


text \<open>
  C3 on three calls: a clean request, a request with an extreme value, and a request to
  the monitor without thresholds, which raises.
\<close>

theorem incident_persistence_witness:
  "detect_threat (example_env ok_transport) (example_monitor 5) (request_with (int_list [1, 2, 3])) =
     (Inr (initial_assessment 100000000),
      (example_monitor 5)\<lparr>request_history := [''10.0.0.1'' \<mapsto> [100000007]]\<rparr>, [])
   \<and> threats_detected (initial_assessment 100000000) = []
   \<and> incident_log ((example_monitor 5)\<lparr>request_history := [''10.0.0.1'' \<mapsto> [100000007]]\<rparr>) =
        incident_log (example_monitor 5)
   \<and> fst (get_incident_summary 100000008
             ((example_monitor 5)\<lparr>request_history := [''10.0.0.1'' \<mapsto> [100000007]]\<rparr>) 24) =
       fst (get_incident_summary 100000008 (example_monitor 5) 24)
   \<and> fst (detect_threat (example_env ok_transport) (example_monitor 5)
             (request_with (int_list [2000000, 1]))) = Inr extreme_assessment
   \<and> threats_detected extreme_assessment \<noteq> []
   \<and> incident_log (fst (snd (detect_threat (example_env ok_transport) (example_monitor 5)
                                (request_with (int_list [2000000, 1]))))) =
        incident_log (example_monitor 5) @ [incident_of extreme_assessment ''10.0.0.1'']
   \<and> fst (detect_threat (example_env ok_transport) unconfigured_monitor
             (request_with (int_list [1, 2, 3]))) = Inl (KeyError ''alert_thresholds'')
   \<and> incident_log (fst (snd (detect_threat (example_env ok_transport) unconfigured_monitor
                                (request_with (int_list [1, 2, 3]))))) =
        incident_log unconfigured_monitor"
proof -
  let ?env = "example_env ok_transport"
  let ?small = "request_with (int_list [1, 2, 3])" and ?big = "request_with (int_list [2000000, 1])"
  have t: "threats_detected (initial_assessment 100000000) = []"
    by (simp add: initial_assessment_def)
  have n: "threats_detected extreme_assessment \<noteq> []" by (simp add: extreme_assessment_def)
  have ip: "ip_address ?big = Some ''10.0.0.1''" by (simp add: request_with_def)
  have d: "detect_threat ?env (example_monitor 5) ?small =
     (Inr (initial_assessment 100000000),
      (example_monitor 5)\<lparr>request_history := [''10.0.0.1'' \<mapsto> [100000007]]\<rparr>, [])"
    by (rule detect_clean) simp
  from incident_persistence [OF d] t
  have clean: "incident_log ((example_monitor 5)\<lparr>request_history := [''10.0.0.1'' \<mapsto> [100000007]]\<rparr>) =
        incident_log (example_monitor 5)
   \<and> fst (get_incident_summary 100000008
             ((example_monitor 5)\<lparr>request_history := [''10.0.0.1'' \<mapsto> [100000007]]\<rparr>) 24) =
       fst (get_incident_summary 100000008 (example_monitor 5) 24)"
    by blast
  have fe: "fst (detect_threat ?env (example_monitor 5) ?big) = Inr extreme_assessment"
    by (simp add: detect_extreme)
  have de: "detect_threat ?env (example_monitor 5) ?big =
     (Inr extreme_assessment, fst (snd (detect_threat ?env (example_monitor 5) ?big)),
      snd (snd (detect_threat ?env (example_monitor 5) ?big)))"
    by (rule triple_eq [OF fe])
  from incident_persistence [OF de] n ip
  have threat: "incident_log (fst (snd (detect_threat ?env (example_monitor 5) ?big))) =
        incident_log (example_monitor 5) @ [incident_of extreme_assessment ''10.0.0.1'']"
    by auto
  have fu: "fst (detect_threat ?env unconfigured_monitor ?small) = Inl (KeyError ''alert_thresholds'')"
    by (simp add: detect_unconfigured)
  have du: "detect_threat ?env unconfigured_monitor ?small =
     (Inl (KeyError ''alert_thresholds''), fst (snd (detect_threat ?env unconfigured_monitor ?small)),
      snd (snd (detect_threat ?env unconfigured_monitor ?small)))"
    by (rule triple_eq [OF fu])
  from incident_persistence [OF du]
  have raised: "incident_log (fst (snd (detect_threat ?env unconfigured_monitor ?small))) =
        incident_log unconfigured_monitor"
    by blast
  show ?thesis using d t clean fe n threat fu raised by blast
qed

text \<open>
  C4 on the busy monitor with a mail server that refuses the connection: the call returns
  the assessment, the incident is logged, and the failure is only a log record; with a
  server that accepts, the call returns the same assessment. The monitor without
  thresholds raises the missing-key error whatever the server.
\<close>

theorem transport_failure_isolation_witness:
  "detect_threat (example_env refusing_transport) busy_monitor (request_with (int_list [1, 2, 3])) =
     (Inr rate_assessment,
      busy_monitor\<lparr>request_history := [''10.0.0.1'' \<mapsto> [100000007, 100000007]],
                   incident_log := [incident_of rate_assessment ''10.0.0.1'']\<rparr>,
      [LogWarning (incident_of rate_assessment ''10.0.0.1''),
       LogError ''Failed to send alert'' (OSError ''connection refused'')])
   \<and> (\<exists>ta ip. ip_address (request_with (int_list [1, 2, 3])) = Some ip
        \<and> incident_log (busy_monitor\<lparr>request_history := [''10.0.0.1'' \<mapsto> [100000007, 100000007]],
                   incident_log := [incident_of rate_assessment ''10.0.0.1'']\<rparr>) =
            incident_log busy_monitor @ [incident_of ta ip])
   \<and> fst (detect_threat ((example_env refusing_transport)\<lparr>mail := ok_transport\<rparr>) busy_monitor
             (request_with (int_list [1, 2, 3]))) = Inr rate_assessment
   \<and> fst (detect_threat (example_env refusing_transport) unconfigured_monitor
             (request_with (int_list [1, 2, 3]))) = Inl (KeyError ''alert_thresholds'')
   \<and> KeyError ''alert_thresholds'' \<in> request_errors \<union> threshold_errors"
proof -
  let ?m' = "busy_monitor\<lparr>request_history := [''10.0.0.1'' \<mapsto> [100000007, 100000007]],
                   incident_log := [incident_of rate_assessment ''10.0.0.1'']\<rparr>"
  let ?env = "example_env refusing_transport" and ?req = "request_with (int_list [1, 2, 3])"
  have s: "send_alert refusing_transport ?m' (incident_of rate_assessment ''10.0.0.1'') =
             [LogError ''Failed to send alert'' (OSError ''connection refused'')]"
    by (simp add: send_alert_def send_refused busy_monitor_def example_monitor_def)
  have d: "detect_threat ?env busy_monitor ?req =
     (Inr rate_assessment, ?m',
      [LogWarning (incident_of rate_assessment ''10.0.0.1''),
       LogError ''Failed to send alert'' (OSError ''connection refused'')])"
    using detect_busy [of refusing_transport] s by simp
  note main = transport_failure_isolation [OF d]
  have "\<exists>ta ip. Inr rate_assessment = (Inr ta :: py_error + threat_assessment)
          \<and> ip_address ?req = Some ip
          \<and> incident_log ?m' = incident_log busy_monitor @ [incident_of ta ip]
          \<and> send_alert_body (mail ?env) ?m' (incident_of ta ip) = Inl (OSError ''connection refused'')"
    using main by simp
  then have logged: "\<exists>ta ip. ip_address ?req = Some ip
        \<and> incident_log ?m' = incident_log busy_monitor @ [incident_of ta ip]"
    by blast
  have other: "fst (detect_threat (?env\<lparr>mail := ok_transport\<rparr>) busy_monitor ?req) = Inr rate_assessment"
    using main by blast
  have fu: "fst (detect_threat ?env unconfigured_monitor ?req) = Inl (KeyError ''alert_thresholds'')"
    by (simp add: detect_unconfigured)
  have du: "detect_threat ?env unconfigured_monitor ?req =
     (Inl (KeyError ''alert_thresholds''), fst (snd (detect_threat ?env unconfigured_monitor ?req)),
      snd (snd (detect_threat ?env unconfigured_monitor ?req)))"
    by (rule triple_eq [OF fu])
  have err: "KeyError ''alert_thresholds'' \<in> request_errors \<union> threshold_errors"
    using transport_failure_isolation [OF du] by blast
  show ?thesis using d logged other fu err by blast
qed

text \<open>
  C5 on the monitor built without thresholds, and on a monitor built with threshold 3,
  where a request without input raises the request's own error.
\<close>

theorem settings_read_at_call_time_witness:
  "init (\<lambda>filename. None) ''20240101'' ''demo'' unconfigured None = Inr unconfigured_monitor
   \<and> run unconfigured_monitor [] = (unconfigured_monitor, [])
   \<and> \<not> has_threshold unconfigured
   \<and> ip_address (request_with (int_list [1, 2, 3])) = Some ''10.0.0.1''
   \<and> (\<exists>e\<in>threshold_errors.
         detect_threat (example_env ok_transport) unconfigured_monitor (request_with (int_list [1, 2, 3])) =
           (Inl e, snd (check_rate_limit (now_rate (example_env ok_transport)) unconfigured_monitor ''10.0.0.1''), []))
   \<and> history_of (snd (check_rate_limit (now_rate (example_env ok_transport)) unconfigured_monitor ''10.0.0.1''))
        ''10.0.0.1'' = [100000007]
   \<and> (\<exists>m0'. init (\<lambda>filename. None) ''20240101'' ''demo'' (example_settings 3) None = Inr m0')
   \<and> init (\<lambda>filename. None) ''20240101'' ''demo'' (example_settings 3) None = Inr (example_monitor 3)
   \<and> run (example_monitor 3) [] = (example_monitor 3, [])
   \<and> has_threshold (example_settings 3)
   \<and> fst (detect_threat (example_env ok_transport) (example_monitor 3) no_input_request) =
        Inl (KeyError ''input_data'')
   \<and> KeyError ''input_data'' \<notin> threshold_errors"
proof -
  have i: "init (\<lambda>filename. None) ''20240101'' ''demo'' unconfigured None = Inr unconfigured_monitor"
    by (simp add: init_def unconfigured_monitor_def)
  have r: "run unconfigured_monitor [] = (unconfigured_monitor, [])" by simp
  have h: "\<not> has_threshold unconfigured" by (simp add: has_threshold_def unconfigured_def)
  have a: "ip_address (request_with (int_list [1, 2, 3])) = Some ''10.0.0.1''"
    by (simp add: request_with_def)
  have e: "history_of unconfigured_monitor ''10.0.0.1'' = []"
    by (simp add: history_of_def unconfigured_monitor_def)
  have n: "now_rate (example_env ok_transport) = 100000007" by (simp add: example_env_def)
  let ?env = "example_env ok_transport" and ?req = "request_with (int_list [1, 2, 3])"
  have inst: "(\<exists>e\<in>threshold_errors.
         detect_threat ?env unconfigured_monitor ?req =
           (Inl e, snd (check_rate_limit (now_rate ?env) unconfigured_monitor ''10.0.0.1''), []))
     \<and> history_of (snd (check_rate_limit (now_rate ?env) unconfigured_monitor ''10.0.0.1'')) ''10.0.0.1'' =
         filter (\<lambda>ts. now_rate ?env - ts < minute) (history_of unconfigured_monitor ''10.0.0.1'')
           @ [now_rate ?env]"
    using settings_read_at_call_time [OF i r] h a by blast
  have hist: "history_of (snd (check_rate_limit (now_rate ?env) unconfigured_monitor ''10.0.0.1''))
        ''10.0.0.1'' = [100000007]"
    using inst e n by simp
  have ex: "\<exists>m0'. init (\<lambda>filename. None) ''20240101'' ''demo'' (example_settings 3) None = Inr m0'"
    using settings_read_at_call_time [OF i r] by blast
  have i3: "init (\<lambda>filename. None) ''20240101'' ''demo'' (example_settings 3) None = Inr (example_monitor 3)"
    by (rule init_example)
  have r3: "run (example_monitor 3) [] = (example_monitor 3, [])" by simp
  have h3: "has_threshold (example_settings 3)"
    by (simp add: has_threshold_def example_settings_def)
  have f3: "fst (detect_threat ?env (example_monitor 3) no_input_request) = Inl (KeyError ''input_data'')"
    by (simp add: detect_no_input)
  have n3: "KeyError ''input_data'' \<notin> threshold_errors"
    using settings_read_at_call_time [OF i3 r3] h3 f3 by blast
  show ?thesis using i r h a inst hist ex i3 r3 h3 f3 n3 by blast
qed

end
